theory Spec2Isabelle
  imports Complex_Main
begin

section \<open>Python values, exceptions and the numpy fragment used by the readers\<close>

text \<open>
  The readers are Python; every exception they can raise is a value of \<open>error\<close>, and a
  computation that may raise returns \<open>error + 'a\<close> (\<open>Inl\<close> the exception). IEEE floats are
  idealised as reals; non-finite floats are outside the embedding.
\<close>

datatype error =
    KeyError string
  | ValueError
  | IndexError
  | TypeError
  | UnboundLocalError string
  | ZeroDivisionError
  | FileNotFoundError
  | OSError
  | StructError
  | AttributeError

definition bind_err :: "error + 'a \<Rightarrow> ('a \<Rightarrow> error + 'b) \<Rightarrow> error + 'b" where
  "bind_err m f = (case m of Inl e \<Rightarrow> Inl e | Inr x \<Rightarrow> f x)"

fun map_err :: "('a \<Rightarrow> error + 'b) \<Rightarrow> 'a list \<Rightarrow> error + 'b list" where
  "map_err f [] = Inr []"
| "map_err f (x # xs) =
     (case f x of Inl e \<Rightarrow> Inl e
      | Inr y \<Rightarrow> (case map_err f xs of Inl e \<Rightarrow> Inl e | Inr ys \<Rightarrow> Inr (y # ys)))"

text \<open>A numpy array: its shape and its elements in row-major (C) order.\<close>

record ndarray =
  shape :: "nat list"
  flat :: "real list"

definition np_size :: "nat list \<Rightarrow> nat" where
  "np_size s = prod_list s"

text \<open>\<open>np.reshape(a, target)\<close> with non-negative target entries: the element count must
  agree, otherwise \<open>ValueError\<close>.\<close>

definition np_reshape :: "ndarray \<Rightarrow> nat list \<Rightarrow> error + ndarray" where
  "np_reshape a target =
     (if np_size (shape a) = np_size target then Inr (a\<lparr>shape := target\<rparr>) else Inl ValueError)"

text \<open>\<open>np.reshape(a, target)\<close> with integer target entries: one \<open>-1\<close> is inferred from the
  element count, any other negative entry is a \<open>ValueError\<close>.\<close>

definition np_reshape_int :: "ndarray \<Rightarrow> int list \<Rightarrow> error + ndarray" where
  "np_reshape_int a dims =
     (if \<not> list_ex (\<lambda>d. d < 0) dims then np_reshape a (map nat dims)
      else if length (filter (\<lambda>d. d < 0) dims) = 1 \<and> list_ex (\<lambda>d. d = - 1) dims then
        (let known = prod_list (map nat (filter (\<lambda>d. 0 \<le> d) dims)) in
         if known = 0 \<or> np_size (shape a) mod known \<noteq> 0 then Inl ValueError
         else Inr (a\<lparr>shape := map (\<lambda>d. if d < 0 then np_size (shape a) div known else nat d) dims\<rparr>))
      else Inl ValueError)"

text \<open>A signed 32-bit integer after an operation that overflows: numpy wraps around.\<close>

definition wrap32 :: "int \<Rightarrow> int" where
  "wrap32 i = (i + 2 ^ 31) mod 2 ^ 32 - 2 ^ 31"

definition np_unique :: "real list \<Rightarrow> real list" where
  "np_unique xs = sort (remdups xs)"

definition np_arange :: "nat \<Rightarrow> real list" where
  "np_arange n = map real [0..<n]"

text \<open>Elementwise product of two one-dimensional arrays with numpy's broadcasting: a
  length-one operand is stretched, equal lengths are multiplied pairwise, anything else is
  a \<open>ValueError\<close>.\<close>

definition np_mul :: "real list \<Rightarrow> real list \<Rightarrow> error + real list" where
  "np_mul xs ys =
     (if length xs = length ys then Inr (map2 (*) xs ys)
      else if length ys = 1 then Inr (map (\<lambda>x. x * hd ys) xs)
      else if length xs = 1 then Inr (map (\<lambda>y. hd xs * y) ys)
      else Inl ValueError)"

text \<open>\<open>xs[i]\<close> for \<open>i \<ge> 0\<close> and \<open>xs[-k]\<close> for \<open>k > 0\<close> on a Python sequence.\<close>

definition py_index :: "'a list \<Rightarrow> nat \<Rightarrow> error + 'a" where
  "py_index xs i = (if i < length xs then Inr (xs ! i) else Inl IndexError)"

definition py_index_end :: "'a list \<Rightarrow> nat \<Rightarrow> error + 'a" where
  "py_index_end xs k =
     (if 0 < k \<and> k \<le> length xs then Inr (xs ! (length xs - k)) else Inl IndexError)"

section \<open>The dataset sink (sidpy.Dataset)\<close>

text \<open>
  The readers hand every channel to \<open>sidpy.Dataset\<close>, an external container. It is modelled
  as a record that stores what it is given: \<open>from_array\<close> wraps an array and gives every
  dimension a default axis \<open>arange(shape[i])\<close>; \<open>set_dimension\<close> replaces the axis at an
  index. It raises \<open>IndexError\<close> when the index is not a dimension of the array, and
  \<open>ValueError\<close> when the axis is not a vector with as many values as that dimension of
  the array. \<open>from_array\<close> has a parameter \<open>title\<close>; a keyword \<open>name\<close> does not set the
  title, which is then \<open>generic\<close>.
\<close>

record axis =
  ax_name :: string
  ax_units :: string
  ax_quantity :: string
  ax_kind :: string
  ax_values :: ndarray

record 'm dataset =
  ds_title :: string
  ds_array :: ndarray
  ds_axes :: "axis list"
  ds_units :: string
  ds_quantity :: string
  ds_data_type :: string
  ds_direction :: "string list"
  ds_metadata :: "(string \<times> 'm) list"
  ds_original_metadata :: "(string \<times> 'm) list"

definition vector :: "real list \<Rightarrow> ndarray" where
  "vector xs = \<lparr>shape = [length xs], flat = xs\<rparr>"

definition default_axis :: "nat \<Rightarrow> nat \<Rightarrow> axis" where
  "default_axis i n =
     \<lparr>ax_name = [char_of (97 + i)], ax_units = ''generic'', ax_quantity = ''generic'',
      ax_kind = ''UNKNOWN'', ax_values = vector (np_arange n)\<rparr>"

definition from_array :: "ndarray \<Rightarrow> string \<Rightarrow> 'm dataset" where
  "from_array a title =
     \<lparr>ds_title = title, ds_array = a,
      ds_axes = map (\<lambda>i. default_axis i (shape a ! i)) [0..<length (shape a)],
      ds_units = ''generic'', ds_quantity = ''generic'', ds_data_type = ''UNKNOWN'',
      ds_direction = [], ds_metadata = [], ds_original_metadata = []\<rparr>"

text \<open>\<open>from_array(x, chunks=c)\<close>: for an array the chunk tuple must have one entry per
  dimension (dask raises \<open>ValueError\<close> otherwise). \<open>x = None\<close> gives a dataset of a
  zero-dimensional array, whatever the chunks.\<close>

definition from_array_chunks :: "ndarray option \<Rightarrow> string \<Rightarrow> nat list \<Rightarrow> error + 'm dataset" where
  "from_array_chunks x title chunks =
     (case x of
        None \<Rightarrow> Inr (from_array \<lparr>shape = [], flat = []\<rparr> title)
      | Some a \<Rightarrow>
          if length chunks = length (shape a) then Inr (from_array a title) else Inl ValueError)"

definition Dimension :: "ndarray \<Rightarrow> string \<Rightarrow> string \<Rightarrow> string \<Rightarrow> string \<Rightarrow> axis" where
  "Dimension vals name units quantity kind =
     \<lparr>ax_name = name, ax_units = units, ax_quantity = quantity, ax_kind = kind,
      ax_values = vals\<rparr>"

definition set_dimension :: "nat \<Rightarrow> axis \<Rightarrow> 'm dataset \<Rightarrow> error + 'm dataset" where
  "set_dimension ind ax d =
     (if \<not> ind < length (shape (ds_array d)) then Inl IndexError
      else if shape (ax_values ax) \<noteq> [shape (ds_array d) ! ind] then Inl ValueError
      else Inr (d\<lparr>ds_axes := (ds_axes d)[ind := ax]\<rparr>))"

text \<open>What a \<open>read()\<close> returns: a dict of datasets, a list of datasets, or one dataset.\<close>

datatype 'm py_return =
    RetDict "(string \<times> 'm dataset) list"
  | RetList "'m dataset list"
  | RetDataset "'m dataset"

section \<open>MRCReader (mrc\_reader.py)\<close>

text \<open>
  \<open>mrcfile.mmap\<close> is external: the file is represented by what it yields, the data block
  \<open>mrc.data\<close> and the indexed extended header as its field names with their per-frame
  columns (in \<open>dtype.names\<close> order). Reading a missing field is a \<open>ValueError\<close>.
\<close>

record mrc_file =
  mrc_data :: ndarray
  extended_header :: "(string \<times> real list) list"

definition header_field :: "(string \<times> real list) list \<Rightarrow> string \<Rightarrow> error + real list" where
  "header_field eh label = (case map_of eh label of None \<Rightarrow> Inl ValueError | Some col \<Rightarrow> Inr col)"

definition scan_shape_params :: "string list" where
  "scan_shape_params = [''Scan size right'', ''Scan size left'', ''Scan size top'', ''Scan size bottom'']"

text \<open>\<open>np.array(sizes).flatten()\<close>: the per-label arrays must have one common length.\<close>

definition flatten_sizes :: "real list list \<Rightarrow> error + real list" where
  "flatten_sizes sizes =
     (if 1 < length (remdups (map length sizes)) then Inl ValueError else Inr (concat sizes))"

text \<open>\<open>int(np.abs(sizes[0] - sizes[1]))\<close>: the scan-size fields of the extended header are
  32-bit integers, so the difference and the absolute value wrap around; the result is
  negative when the difference is \<open>-2**31\<close>.\<close>

definition int_abs_diff :: "real \<Rightarrow> real \<Rightarrow> int" where
  "int_abs_diff a b = wrap32 \<bar>wrap32 \<lfloor>a - b\<rfloor>\<bar>"

definition angstrom :: string where
  "angstrom = [char_of (0xC3 :: nat), char_of (0x85 :: nat)]"

text \<open>The target of the reshape; \<open>None\<close> is the unbound local of the \<open>else\<close> branch, which
  only prints.\<close>

definition reshape_target :: "string \<Rightarrow> int \<Rightarrow> int \<Rightarrow> nat list \<Rightarrow> error + int list option" where
  "reshape_target handedness x_shape y_shape dshape =
     (if handedness = ''right'' then
        bind_err (py_index_end dshape 2) (\<lambda>u. bind_err (py_index_end dshape 1) (\<lambda>v.
          Inr (Some [x_shape, y_shape, int u, int v])))
      else if handedness = ''left'' then
        bind_err (py_index_end dshape 2) (\<lambda>u. bind_err (py_index_end dshape 1) (\<lambda>v.
          Inr (Some [y_shape, x_shape, int u, int v])))
      else Inr None)"

text \<open>The \<open>try\<close> around \<open>np.reshape\<close>: a \<open>ValueError\<close> is caught and leaves \<open>self.data\<close> as
  it was; the unbound target is a \<open>UnboundLocalError\<close>, which is not caught.\<close>

definition try_reshape :: "ndarray option \<Rightarrow> ndarray \<Rightarrow> int list option \<Rightarrow> error + ndarray option" where
  "try_reshape self_data a target =
     (case target of
        None \<Rightarrow> Inl (UnboundLocalError ''reshape_target'')
      | Some t \<Rightarrow> (case np_reshape_int a t of Inl e \<Rightarrow> Inr self_data | Inr b \<Rightarrow> Inr (Some b)))"

definition scan_axis :: "real list dataset \<Rightarrow> nat \<Rightarrow> real \<Rightarrow> string \<Rightarrow> string \<Rightarrow> error + real list dataset" where
  "scan_axis d i pixel name units =
     bind_err (py_index (shape (ds_array d)) i) (\<lambda>n.
       set_dimension i (Dimension (vector (map (\<lambda>x. x * pixel) (np_arange n)))
                          name units ''length'' ''spatial'') d)"

definition detector_axis :: "real list dataset \<Rightarrow> nat \<Rightarrow> real list \<Rightarrow> string \<Rightarrow> error + real list dataset" where
  "detector_axis d i pixels name =
     bind_err (py_index (shape (ds_array d)) i) (\<lambda>n.
     bind_err (np_mul (np_arange n) pixels) (\<lambda>vals.
       set_dimension i (Dimension (vector vals) name (''1/'' @ angstrom) ''angle'' ''reciprocal'') d))"

text \<open>Lines 63--71: the unique values of the four scan-size fields, flattened, give
  \<open>y_shape = |sizes[0] - sizes[1]|\<close> and \<open>x_shape = |sizes[2] - sizes[3]|\<close>. The result
  is the pair \<open>(x_shape, y_shape)\<close>.\<close>

definition scan_shape :: "(string \<times> real list) list \<Rightarrow> error + int \<times> int" where
  "scan_shape eh =
     bind_err (map_err (\<lambda>label. bind_err (header_field eh label) (\<lambda>col. Inr (np_unique col)))
                 scan_shape_params) (\<lambda>sizes0.
     bind_err (flatten_sizes sizes0) (\<lambda>sizes.
     bind_err (py_index sizes 0) (\<lambda>s0.
     bind_err (py_index sizes 1) (\<lambda>s1.
     bind_err (py_index sizes 2) (\<lambda>s2.
     bind_err (py_index sizes 3) (\<lambda>s3.
       Inr (int_abs_diff s2 s3, int_abs_diff s0 s1)))))))"

text \<open>Lines 90--94: the camera pixel sizes, converted from 1/m to 1/Angstrom.\<close>

definition camera_pixel_sizes :: "(string \<times> real list) list \<Rightarrow> error + real list list" where
  "camera_pixel_sizes eh =
     map_err (\<lambda>label. bind_err (header_field eh label) (\<lambda>col.
                Inr (map (\<lambda>x. x * (1 / 10 ^ 10)) (np_unique col))))
       [''Pixel size X'', ''Pixel size Y'']"

text \<open>Lines 97--103: \<open>if scan_pixel_size:\<close> is false for \<open>None\<close> and for zero.\<close>

definition scan_scale :: "real option \<Rightarrow> real \<times> string" where
  "scan_scale scan_pixel_size =
     (case scan_pixel_size of
        None \<Rightarrow> (1, ''pixels'')
      | Some s \<Rightarrow> if s = 0 then (1, ''pixels'') else (s * 10 ^ 10, angstrom))"

text \<open>Lines 115--134: the dataset and its four axes. The keyword \<open>name='MRC_000'\<close> does
  not set the title.\<close>

definition mrc_dataset ::
  "ndarray option \<Rightarrow> int list \<Rightarrow> (string \<times> real list) list \<Rightarrow> real \<times> string \<Rightarrow> real list list
     \<Rightarrow> error + real list dataset" where
  "mrc_dataset data target metadata scale cps =
     bind_err (from_array_chunks data ''generic'' [1, 1, nat (target ! 2), nat (target ! 3)]) (\<lambda>d0.
     bind_err (scan_axis (d0\<lparr>ds_original_metadata := metadata, ds_data_type := ''image_4d''\<rparr>)
                 0 (fst scale) ''x'' (snd scale)) (\<lambda>d1.
     bind_err (scan_axis d1 1 (fst scale) ''y'' (snd scale)) (\<lambda>d2.
     bind_err (detector_axis d2 2 (cps ! 0) ''u'') (\<lambda>d3.
     detector_axis d3 3 (cps ! 1) ''v''))))"

text \<open>\<open>MRCReader.read(handedness, scan_pixel_size)\<close>. \<open>self_data\<close> is the instance's
  \<open>self.data\<close> before the call: \<open>None\<close> for a reader that has not read yet.\<close>

definition mrc_read ::
  "ndarray option \<Rightarrow> mrc_file \<Rightarrow> string \<Rightarrow> real option \<Rightarrow> error + real list py_return" where
  "mrc_read self_data mrc handedness scan_pixel_size =
     (let eh = extended_header mrc in
      bind_err (scan_shape eh) (\<lambda>(x_shape, y_shape).
      bind_err (reshape_target handedness x_shape y_shape (shape (mrc_data mrc))) (\<lambda>target.
      bind_err (try_reshape self_data (mrc_data mrc) target) (\<lambda>data.
      bind_err (camera_pixel_sizes eh) (\<lambda>cps.
      bind_err (mrc_dataset data (the target) (map (\<lambda>(label, col). (label, np_unique col)) eh)
                  (scan_scale scan_pixel_size) cps) (\<lambda>d.
        Inr (RetDict [(''Channel_000'', d)])))))))"


section \<open>IgorIBWReader (igor\_ibw.py)\<close>

text \<open>
  \<open>bw.load\<close> is external: the wave is represented by the entries the reader uses, its note
  (as decoded text), its wave header, its label lists and its data array. Python's
  \<open>float()\<close> and \<open>int()\<close> on strings and \<open>struct.iter_unpack\<close> (by format character, \<open>None\<close>
  for \<open>struct.error\<close>) are parameters of the embedding.
\<close>

record prims =
  to_int :: "string \<Rightarrow> int option"
  to_float :: "string \<Rightarrow> real option"
  unpack :: "string \<Rightarrow> string \<Rightarrow> real list option"

datatype pval = PInt int | PFloat real | PStr string

datatype plabel = LBytes string | LStr string

record ibw_wave =
  ibw_note :: string
  wave_header :: "(string \<times> pval) list"
  labels :: "plabel list list"
  wData :: ndarray

text \<open>A Python dict as an association list in insertion order: assigning to a present key
  keeps its position, a new key goes last.\<close>

fun dict_set :: "('k \<times> 'v) list \<Rightarrow> 'k \<Rightarrow> 'v \<Rightarrow> ('k \<times> 'v) list" where
  "dict_set [] k v = [(k, v)]"
| "dict_set ((k', v') # kvs) k v =
     (if k' = k then (k, v) # kvs else (k', v') # dict_set kvs k v)"

definition dict_get :: "(string \<times> 'v) list \<Rightarrow> string \<Rightarrow> error + 'v" where
  "dict_get d k = (case map_of d k of None \<Rightarrow> Inl (KeyError k) | Some v \<Rightarrow> Inr v)"

text \<open>\<open>s.split(c)\<close> for a one-character separator, and \<open>s.strip()\<close> on a \<open>str\<close> whose
  characters are below 256 (the readers decode bytes as latin-1): the whitespace there is
  TAB to CR, FS to US, the space, NEL (0x85) and the no-break space (0xA0).\<close>

fun split_on :: "char \<Rightarrow> string \<Rightarrow> string list" where
  "split_on c [] = [[]]"
| "split_on c (x # xs) =
     (if x = c then [] # split_on c xs
      else (case split_on c xs of [] \<Rightarrow> [[x]] | w # ws \<Rightarrow> (x # w) # ws))"

definition is_space :: "char \<Rightarrow> bool" where
  "is_space c = (of_char c \<in> {9, 10, 11, 12, 13, 28, 29, 30, 31, 32, 133, 160 :: nat})"

definition strip :: "string \<Rightarrow> string" where
  "strip s = rev (dropWhile is_space (rev (dropWhile is_space s)))"

definition rstrip_cr :: "string \<Rightarrow> string" where
  "rstrip_cr s = rev (dropWhile (\<lambda>c. c = CHR 0x0D) (rev s))"

text \<open>Lines 419--433 of \<open>_read_parms\<close>: one pair string, tried with both separators.\<close>

definition read_pair :: "prims \<Rightarrow> (string \<times> pval) list \<Rightarrow> string \<Rightarrow> char \<Rightarrow> (string \<times> pval) list" where
  "read_pair P parm_dict pair_string split_parm =
     (case split_on split_parm pair_string of
        [a, b] \<Rightarrow>
          (case to_float P (strip b) of
             Some num \<Rightarrow>
               if num = of_int \<lfloor>num\<rfloor> then dict_set parm_dict (strip a) (PInt \<lfloor>num\<rfloor>)
               else dict_set parm_dict (strip a) (PFloat num)
           | None \<Rightarrow> dict_set parm_dict (strip a) (PStr (strip b)))
      | _ \<Rightarrow> parm_dict)"

definition copy_key :: "(string \<times> pval) list \<Rightarrow> (string \<times> pval) list \<Rightarrow> string \<Rightarrow> (string \<times> pval) list" where
  "copy_key other_parms parm_dict key =
     (case map_of other_parms key of None \<Rightarrow> parm_dict | Some v \<Rightarrow> dict_set parm_dict key v)"

definition read_parms :: "prims \<Rightarrow> ibw_wave \<Rightarrow> (string \<times> pval) list" where
  "read_parms P w =
     (let parm_list = split_on (CHR 0x0D) (rstrip_cr (ibw_note w));
          parm_dict = foldl (\<lambda>d pair_string. foldl (\<lambda>d' c. read_pair P d' pair_string c) d
                               [CHR '':'', CHR ''=''])
                        [] parm_list
      in foldl (copy_key (wave_header w)) parm_dict [''creationDate'', ''modDate'', ''bname''])"

text \<open>Lines 469--471 of \<open>_get_chan_labels\<close>: the list is changed while it is iterated;
  the iterator is the index \<open>i\<close>. Only a \<open>str\<close> item equals \<open>''\<close>.\<close>

function remove_empty :: "nat \<Rightarrow> plabel list \<Rightarrow> plabel list" where
  "remove_empty i ls =
     (if i < length ls then
        (if ls ! i = LStr [] then remove_empty (Suc i) (remove1 (LStr []) ls)
         else remove_empty (Suc i) ls)
      else ls)"
  by pat_completeness auto
termination
  by (relation "measure (\<lambda>(i, ls). length ls - i)") (auto simp: length_remove1)

definition label_text :: "plabel \<Rightarrow> string" where
  "label_text l = (case l of LBytes b \<Rightarrow> b | LStr t \<Rightarrow> t)"

definition lower_char :: "char \<Rightarrow> char" where
  "lower_char c =
     (if 65 \<le> (of_char c :: nat) \<and> (of_char c :: nat) \<le> 90 then char_of ((of_char c :: nat) + 32)
      else c)"

text \<open>\<open>s.rfind(t)\<close>: the highest index at which \<open>t\<close> starts in \<open>s\<close>, if any.\<close>

definition rfind :: "string \<Rightarrow> string \<Rightarrow> nat option" where
  "rfind s t =
     (case filter (\<lambda>i. take (length t) (drop i s) = t) (rev [0..<Suc (length s)]) of
        [] \<Rightarrow> None | i # _ \<Rightarrow> Some i)"

definition clean_label :: "string \<Rightarrow> string" where
  "clean_label chan =
     (case rfind (map lower_char chan) ''trace'' of
        Some i \<Rightarrow> if 0 < i then take (i + 5) chan else chan
      | None \<Rightarrow> chan)"

definition default_unit :: "string \<Rightarrow> string" where
  "default_unit chan =
     (if take 5 chan = ''Phase'' then ''deg''
      else if take 7 chan = ''Current'' then ''A''
      else ''m'')"

definition get_chan_labels :: "ibw_wave \<Rightarrow> string list \<times> string list" where
  "get_chan_labels w =
     (let ls = map label_text (remove_empty 0 (concat (labels w)))
      in (map clean_label ls, map default_unit ls))"

text \<open>Basic indexing of one axis, \<open>a[:, ..., i, ...]\<close>: the axis is dropped. The array must
  have the axis and \<open>i\<close> must be within it.\<close>

definition index_axis :: "nat \<Rightarrow> nat \<Rightarrow> ndarray \<Rightarrow> error + ndarray" where
  "index_axis k i a =
     (if k < length (shape a) \<and> i < shape a ! k then
        (let outer = prod_list (take k (shape a));
             n = shape a ! k;
             inner = prod_list (drop (Suc k) (shape a))
         in Inr \<lparr>shape = take k (shape a) @ drop (Suc k) (shape a),
                 flat = concat (map (\<lambda>out. take inner (drop ((out * n + i) * inner) (flat a)))
                                  [0..<outer])\<rparr>)
      else Inl IndexError)"

definition squeeze :: "ndarray \<Rightarrow> ndarray" where
  "squeeze a = a\<lparr>shape := filter (\<lambda>n. n \<noteq> 1) (shape a)\<rparr>"

definition atleast_3d :: "ndarray \<Rightarrow> ndarray" where
  "atleast_3d a =
     (case shape a of
        [] \<Rightarrow> a\<lparr>shape := [1, 1, 1]\<rparr>
      | [n] \<Rightarrow> a\<lparr>shape := [1, n, 1]\<rparr>
      | [m, n] \<Rightarrow> a\<lparr>shape := [m, n, 1]\<rparr>
      | _ \<Rightarrow> a)"

text \<open>\<open>np.linspace(start, stop, num)\<close> with the endpoint; a negative \<open>num\<close> is a
  \<open>ValueError\<close>.\<close>

definition np_linspace :: "real \<Rightarrow> real \<Rightarrow> int \<Rightarrow> error + real list" where
  "np_linspace start stop num =
     (if num < 0 then Inl ValueError
      else if num = 1 then Inr [start]
      else Inr (map (\<lambda>i. start + real i * ((stop - start) / real (nat num - 1))) [0..<nat num]))"

text \<open>\<open>xs.index(v)\<close>: the first position of \<open>v\<close>, or \<open>ValueError\<close>.\<close>

fun list_index :: "'a list \<Rightarrow> 'a \<Rightarrow> error + nat" where
  "list_index [] v = Inl ValueError"
| "list_index (x # xs) v =
     (if x = v then Inr 0 else (case list_index xs v of Inl e \<Rightarrow> Inl e | Inr i \<Rightarrow> Inr (Suc i)))"

text \<open>A numeric dict entry used as a number, and as a sample count.\<close>

definition as_real :: "pval \<Rightarrow> error + real" where
  "as_real v = (case v of PInt i \<Rightarrow> Inr (of_int i) | PFloat r \<Rightarrow> Inr r | PStr s \<Rightarrow> Inl TypeError)"

definition as_count :: "pval \<Rightarrow> error + int" where
  "as_count v = (case v of PInt i \<Rightarrow> Inr i | _ \<Rightarrow> Inl TypeError)"

text \<open>Lines 318--342: one channel of an image stack. The keyword
  \<open>name=chan_labels[channel]\<close> still raises for a missing label, and does not set the
  title.\<close>

definition igor_image_channel ::
  "(string \<times> pval) list \<Rightarrow> string list \<Rightarrow> string list \<Rightarrow> pval \<Rightarrow> pval \<Rightarrow> ndarray \<Rightarrow> nat
     \<Rightarrow> error + pval dataset" where
  "igor_image_channel parm_dict chan_labels chan_units num_rows num_cols images channel =
     bind_err (index_axis 2 channel images) (\<lambda>img.
     bind_err (py_index chan_labels channel) (\<lambda>label.
     bind_err (py_index chan_units channel) (\<lambda>unit.
     bind_err (dict_get parm_dict ''FastScanSize'') (\<lambda>fast.
     bind_err (as_real fast) (\<lambda>fast_size.
     bind_err (as_count num_cols) (\<lambda>n_cols.
     bind_err (np_linspace 0 fast_size n_cols) (\<lambda>xs.
     bind_err (set_dimension 0 (Dimension (vector xs) ''x'' unit ''x'' ''spatial'')
                 ((from_array img ''generic'')\<lparr>ds_data_type := ''Image'', ds_units := unit,
                                            ds_quantity := label\<rparr>)) (\<lambda>d1.
     bind_err (dict_get parm_dict ''SlowScanSize'') (\<lambda>slow.
     bind_err (as_real slow) (\<lambda>slow_size.
     bind_err (as_count num_rows) (\<lambda>n_rows.
     bind_err (np_linspace 0 slow_size n_rows) (\<lambda>ys.
     bind_err (set_dimension 1 (Dimension (vector ys) ''y'' unit ''y'' ''spatial'') d1) (\<lambda>d2.
       Inr (d2\<lparr>ds_original_metadata := parm_dict, ds_data_type := ''image''\<rparr>))))))))))))))"

text \<open>Lines 350--360: the spectroscopic values. \<open>list.index\<close> raises the \<open>ValueError\<close> that
  selects the next alternative; the last one is \<open>np.arange(images.shape[2])\<close>.\<close>

definition igor_spec_data :: "string list \<Rightarrow> ndarray \<Rightarrow> error + ndarray" where
  "igor_spec_data chan_labels images =
     (case list_index chan_labels ''ZSnsr'' of
        Inr chan_ind \<Rightarrow> bind_err (index_axis 1 chan_ind images) (\<lambda>a. Inr (squeeze a))
      | Inl e \<Rightarrow>
          (case list_index chan_labels ''Raw'' of
             Inr chan_ind \<Rightarrow>
               bind_err (index_axis 1 chan_ind images) (\<lambda>a.
               bind_err (index_axis 1 0 a) (\<lambda>b. Inr (squeeze b)))
           | Inl e' \<Rightarrow> bind_err (py_index (shape images) 2) (\<lambda>n. Inr (vector (np_arange n)))))"

text \<open>Lines 363--387: one channel of a force curve; \<open>name=\<close> as above.\<close>

definition igor_curve_channel ::
  "(string \<times> pval) list \<Rightarrow> string list \<Rightarrow> string list \<Rightarrow> ndarray \<Rightarrow> ndarray \<Rightarrow> nat
     \<Rightarrow> error + pval dataset" where
  "igor_curve_channel parm_dict chan_labels chan_units spec_data images channel =
     bind_err (index_axis 1 channel images) (\<lambda>a.
     bind_err (index_axis 1 0 a) (\<lambda>curve.
     bind_err (py_index chan_labels channel) (\<lambda>label.
     bind_err (py_index chan_units channel) (\<lambda>unit.
     bind_err (set_dimension 0 (Dimension spec_data label unit label ''spectral'')
                 ((from_array curve ''generic'')\<lparr>ds_units := unit, ds_quantity := label\<rparr>)) (\<lambda>d.
       Inr (d\<lparr>ds_data_type := ''SPECTRUM'', ds_original_metadata := parm_dict\<rparr>))))))"

text \<open>\<open>IgorIBWReader.read\<close>: the datasets are returned as a list.\<close>

definition igor_read :: "prims \<Rightarrow> ibw_wave \<Rightarrow> error + pval py_return" where
  "igor_read P w =
     (let parm_dict = read_parms P w;
          (chan_labels0, chan_units0) = get_chan_labels w;
          images = wData w in
      bind_err (py_index_end (shape images) 1) (\<lambda>last.
      let chan_labels = (if last \<noteq> length chan_labels0 then drop 1 chan_labels0 else chan_labels0);
          chan_units = (if last \<noteq> length chan_labels0 then drop 1 chan_units0 else chan_units0) in
      if length (shape images) = 3 then
        bind_err (dict_get parm_dict ''ScanLines'') (\<lambda>num_rows.
        bind_err (dict_get parm_dict ''ScanPoints'') (\<lambda>num_cols.
        bind_err (map_err (igor_image_channel parm_dict chan_labels chan_units num_rows num_cols images)
                    [0..<last]) (\<lambda>datasets.
          Inr (RetList datasets))))
      else
        (let images3 = atleast_3d images in
         bind_err (igor_spec_data chan_labels images3) (\<lambda>spec_data.
         bind_err (py_index_end (shape images3) 2) (\<lambda>n_chan.
         bind_err (map_err (igor_curve_channel parm_dict chan_labels chan_units spec_data images3)
                     [0..<n_chan]) (\<lambda>datasets.
           Inr (RetList datasets)))))))"


section \<open>WSxM readers (wsxm.py): paths and file groups\<close>

text \<open>
  A \<open>pathlib.Path\<close> is its parent directory and its name. The file system is what the
  readers observe of it: the entries of a directory, each with \<open>is_file()\<close>, in the order
  \<open>iterdir()\<close> yields them, and the bytes of a file.
\<close>

record path =
  p_parent :: string
  p_name :: string

record filesystem =
  fs_listing :: "string \<Rightarrow> (string \<times> bool) list option"
  fs_bytes :: "path \<Rightarrow> string option"

text \<open>\<open>Path.suffix\<close>: the name from its last dot on, when that dot is neither the first nor
  the last character.\<close>

definition suffix_of :: "string \<Rightarrow> string" where
  "suffix_of nm =
     (case rfind nm ''.'' of
        Some i \<Rightarrow> if 0 < i \<and> i < length nm - 1 then drop i nm else []
      | None \<Rightarrow> [])"

text \<open>\<open>\d\<close> of a regular expression on a \<open>str\<close>: a decimal digit. The characters of the
  embedding are the 256 characters of latin-1, and the decimal digits among them are
  \<open>0\<close> to \<open>9\<close>; file names with other characters are outside the embedding.\<close>

definition is_digit :: "char \<Rightarrow> bool" where
  "is_digit c = (48 \<le> (of_char c :: nat) \<and> (of_char c :: nat) \<le> 57)"

text \<open>\<open>re.search(r'\_\d{4}', filename)\<close>: the first position of an underscore followed by
  four digits (\<open>match.start()\<close>).\<close>

fun run_index_here :: "string \<Rightarrow> bool" where
  "run_index_here (c # d1 # d2 # d3 # d4 # rest) =
     (c = CHR ''_'' \<and> is_digit d1 \<and> is_digit d2 \<and> is_digit d3 \<and> is_digit d4)"
| "run_index_here _ = False"

fun search_run_index :: "string \<Rightarrow> nat option" where
  "search_run_index [] = None"
| "search_run_index (c # cs) =
     (if run_index_here (c # cs) then Some 0 else map_option Suc (search_run_index cs))"

definition startswith :: "string \<Rightarrow> string \<Rightarrow> bool" where
  "startswith s pre = (take (length pre) s = pre)"

text \<open>\<open>_wsxm_get_common_files(filepath, ext)\<close>. \<open>files.remove(filepath)\<close> raises
  \<open>ValueError\<close> when the requested path is not among the matches.\<close>

definition wsxm_get_common_files :: "filesystem \<Rightarrow> path \<Rightarrow> string option \<Rightarrow> error + path list" where
  "wsxm_get_common_files fs filepath ext =
     (case search_run_index (p_name filepath) of
        None \<Rightarrow> Inr [filepath]
      | Some start \<Rightarrow>
          (let filename_com = take (start + 5) (p_name filepath) in
           case fs_listing fs (p_parent filepath) of
             None \<Rightarrow> Inl FileNotFoundError
           | Some entries \<Rightarrow>
               (let files = map (\<lambda>e. \<lparr>p_parent = p_parent filepath, p_name = fst e\<rparr>)
                              (filter (\<lambda>e. (ext = None \<or> Some (suffix_of (fst e)) = ext)
                                            \<and> snd e \<and> startswith (fst e) filename_com) entries)
                in if filepath \<in> set files then Inr (filepath # remove1 filepath files)
                   else Inl ValueError)))"

section \<open>WSxM readers: headers and binary images\<close>

text \<open>Header values are strings; the readers add the file path, a \<open>Path\<close> or (in
  \<open>_wsxm_readstp\<close>) a list object of paths, and the 3D reader adds a nested dict and the
  topography image to the metadata.\<close>

datatype hval =
    HStr string
  | HPath path
  | HPathList nat
  | HDict "(string \<times> hval) list"
  | HImage ndarray "axis list" string string

type_synonym header = "(string \<times> hval) list"

text \<open>\<open>file.seek(pos, 0); file.read(n)\<close> on the bytes of the file: a negative position is
  an \<open>OSError\<close>, the count \<open>-1\<close> reads to the end, and any other negative count is a
  \<open>ValueError\<close>.\<close>

definition file_read :: "string \<Rightarrow> int \<Rightarrow> int \<Rightarrow> error + string" where
  "file_read bs pos n =
     (if pos < 0 then Inl OSError
      else if n < - 1 then Inl ValueError
      else Inr (if n = - 1 then drop (nat pos) bs else take (nat n) (drop (nat pos) bs)))"

text \<open>\<open>bytes.splitlines()\<close>: lines end at LF, CR or CR LF; no empty last line.\<close>

fun split_lines_raw :: "string \<Rightarrow> string list" where
  "split_lines_raw [] = [[]]"
| "split_lines_raw (c # cs) =
     (if c = CHR 0x0A then [] # split_lines_raw cs
      else if c = CHR 0x0D then
        (case cs of
           [] \<Rightarrow> [[], []]
         | d # ds \<Rightarrow> if d = CHR 0x0A then [] # split_lines_raw ds else [] # split_lines_raw cs)
      else (case split_lines_raw cs of [] \<Rightarrow> [[c]] | w # ws \<Rightarrow> (c # w) # ws))"

definition splitlines :: "string \<Rightarrow> string list" where
  "splitlines s = (let ps = split_lines_raw s in if last ps = [] then butlast ps else ps)"

text \<open>\<open>header_dict[key]\<close> used as a string.\<close>

definition hdr_str :: "header \<Rightarrow> string \<Rightarrow> error + string" where
  "hdr_str hdr k =
     (case map_of hdr k of
        None \<Rightarrow> Inl (KeyError k)
      | Some (HStr v) \<Rightarrow> Inr v
      | Some _ \<Rightarrow> Inl AttributeError)"

definition py_int :: "prims \<Rightarrow> string \<Rightarrow> error + int" where
  "py_int P t = (case to_int P t of None \<Rightarrow> Inl ValueError | Some n \<Rightarrow> Inr n)"

definition py_float :: "prims \<Rightarrow> string \<Rightarrow> error + real" where
  "py_float P t = (case to_float P t of None \<Rightarrow> Inl ValueError | Some x \<Rightarrow> Inr x)"

text \<open>\<open>int(header_dict[key])\<close>, \<open>float(header_dict[key])\<close>,
  \<open>float(header_dict[key].split(' ')[0])\<close> and \<open>header_dict[key].split(' ')[-1]\<close>.\<close>

definition hdr_int :: "prims \<Rightarrow> header \<Rightarrow> string \<Rightarrow> error + int" where
  "hdr_int P hdr k = bind_err (hdr_str hdr k) (py_int P)"

definition hdr_float :: "prims \<Rightarrow> header \<Rightarrow> string \<Rightarrow> error + real" where
  "hdr_float P hdr k = bind_err (hdr_str hdr k) (py_float P)"

definition hdr_float0 :: "prims \<Rightarrow> header \<Rightarrow> string \<Rightarrow> error + real" where
  "hdr_float0 P hdr k = bind_err (hdr_str hdr k) (\<lambda>v. py_float P (hd (split_on CHR '' '' v)))"

definition hdr_last :: "header \<Rightarrow> string \<Rightarrow> error + string" where
  "hdr_last hdr k = bind_err (hdr_str hdr k) (\<lambda>v. Inr (last (split_on CHR '' '' v)))"

text \<open>Lines 597--603 of \<open>_wsxm_readheader\<close>: the header size is searched in the first
  \<open>inibyte\<close> bytes; when no line gives it, \<open>header_size\<close> is unbound at its first use.\<close>

definition header_size_line :: "prims \<Rightarrow> string \<Rightarrow> (error + int) option" where
  "header_size_line P line =
     (case split_on CHR '':'' line of
        [a, b] \<Rightarrow> if a = ''Image header size'' then Some (py_int P b) else None
      | _ \<Rightarrow> None)"

fun find_header_size :: "prims \<Rightarrow> string list \<Rightarrow> error + int" where
  "find_header_size P [] = Inl (UnboundLocalError ''header_size'')"
| "find_header_size P (line # lns) =
     (case header_size_line P line of Some r \<Rightarrow> r | None \<Rightarrow> find_header_size P lns)"

text \<open>Lines 607--616: a line with one colon is a field, keyed by its name and the last
  section title; a non-empty line without a colon is a section title.\<close>

definition header_line :: "string \<Rightarrow> header \<Rightarrow> string list \<Rightarrow> error + header \<times> string list" where
  "header_line line header_dict title_list =
     (case split_on CHR '':'' line of
        [a] \<Rightarrow> if a \<noteq> [] then Inr (header_dict, title_list @ [a])
                else Inr (header_dict, title_list)
      | [a, b] \<Rightarrow>
          (if title_list = [] then Inl IndexError
           else Inr (dict_set header_dict (strip (strip a @ '' '' @ last title_list))
                       (HStr (strip b)),
                     title_list))
      | _ \<Rightarrow> Inr (header_dict, title_list))"

fun header_lines :: "string list \<Rightarrow> header \<Rightarrow> string list \<Rightarrow> error + header" where
  "header_lines [] header_dict title_list = Inr header_dict"
| "header_lines (line # lns) header_dict title_list =
     (case header_line line header_dict title_list of
        Inl e \<Rightarrow> Inl e
      | Inr r \<Rightarrow> header_lines lns (fst r) (snd r))"

definition wsxm_readheader :: "prims \<Rightarrow> string \<Rightarrow> int \<Rightarrow> error + header \<times> int" where
  "wsxm_readheader P file pos =
     bind_err (file_read file pos 100) (\<lambda>data0.
     bind_err (find_header_size P (splitlines data0)) (\<lambda>header_size.
     bind_err (file_read file pos header_size) (\<lambda>data1.
     bind_err (header_lines (splitlines data1) [] []) (\<lambda>header_dict.
       Inr (header_dict, pos + header_size)))))"

definition DATA_TYPES :: "(string \<times> int \<times> string) list" where
  "DATA_TYPES =
     [(''short'', 2, ''h''), (''short-data'', 2, ''h''), (''unsignedshort'', 2, ''H''),
      (''integer-data'', 4, ''i''), (''signedinteger'', 4, ''i''),
      (''float-data'', 4, ''f''), (''double'', 8, ''d'')]"

definition data_type :: "string \<Rightarrow> error + int \<times> string" where
  "data_type data_format =
     (case map_of DATA_TYPES data_format of None \<Rightarrow> Inl (KeyError data_format) | Some t \<Rightarrow> Inr t)"

text \<open>\<open>file.seek(pos, 0); bin_data = file.read(data_len)\<close> followed by
  \<open>np.array(list(struct.iter_unpack(type_code, bin_data))).flatten()\<close>.\<close>

definition read_array :: "prims \<Rightarrow> string \<Rightarrow> int \<Rightarrow> int \<Rightarrow> string \<Rightarrow> error + real list" where
  "read_array P file pos data_len type_code =
     bind_err (file_read file pos data_len) (\<lambda>bin_data.
       case unpack P type_code bin_data of None \<Rightarrow> Inl StructError | Some xs \<Rightarrow> Inr xs)"

text \<open>Python's \<open>a / b\<close> on floats.\<close>

definition py_div :: "real \<Rightarrow> real \<Rightarrow> error + real" where
  "py_div a b = (if b = 0 then Inl ZeroDivisionError else Inr (a / b))"

text \<open>\<open>a.reshape(dims)\<close> with integer dimensions: one \<open>-1\<close> is inferred from the
  element count, any other negative entry is a \<open>ValueError\<close>.\<close>

definition reshape_int :: "real list \<Rightarrow> int list \<Rightarrow> error + ndarray" where
  "reshape_int xs dims =
     (if \<not> list_ex (\<lambda>d. d < 0) dims then np_reshape (vector xs) (map nat dims)
      else if length (filter (\<lambda>d. d < 0) dims) = 1 \<and> list_ex (\<lambda>d. d = - 1) dims then
        (let known = prod_list (map nat (filter (\<lambda>d. 0 \<le> d) dims)) in
         if known = 0 \<or> length xs mod known \<noteq> 0 then Inl ValueError
         else Inr \<lparr>shape = map (\<lambda>d. if d < 0 then length xs div known else nat d) dims,
                    flat = xs\<rparr>)
      else Inl ValueError)"

definition reshape2 :: "real list \<Rightarrow> int \<Rightarrow> int \<Rightarrow> error + ndarray" where
  "reshape2 xs m n = reshape_int xs [m, n]"

definition scale_array :: "real \<Rightarrow> ndarray \<Rightarrow> ndarray" where
  "scale_array c a = a\<lparr>flat := map (\<lambda>v. c * v) (flat a)\<rparr>"

text \<open>The optional scan offsets of "3D mode" images (lines 655--660).\<close>

definition scan_offsets :: "prims \<Rightarrow> header \<Rightarrow> error + real \<times> real" where
  "scan_offsets P hdr =
     (if ''X starting offset [General Info]'' \<in> set (map fst hdr) then
        bind_err (hdr_float0 P hdr ''X starting offset [General Info]'') (\<lambda>x_offset.
        bind_err (hdr_float0 P hdr ''Y starting offset [General Info]'') (\<lambda>y_offset.
          Inr (x_offset, y_offset)))
      else Inr (0, 0))"

text \<open>Lines 680--694 of \<open>_wsxm_readimg\<close> and 1387--1399 of \<open>_wsxm_readmovie\<close>: the
  calibration factor and the unit of the Z data. The Amplitude branch tests the second word
  of the Z Amplitude field.\<close>

definition z_calibration ::
  "prims \<Rightarrow> header \<Rightarrow> string \<Rightarrow> real \<Rightarrow> real \<Rightarrow> real \<Rightarrow> error + real \<times> string" where
  "z_calibration P hdr chan_label z_len z_min z_max =
     bind_err (if z_len = 0 then Inr 1 else py_div z_len (z_max - z_min)) (\<lambda>z_calib.
     bind_err (hdr_last hdr ''Z Amplitude [General Info]'') (\<lambda>z_unit.
     if chan_label = ''Amplitude'' then
       bind_err (hdr_str hdr ''Z Amplitude [General Info]'') (\<lambda>v.
       bind_err (py_index (split_on CHR '' '' v) 1) (\<lambda>word.
       if word \<noteq> ''V'' then
         bind_err (hdr_float0 P hdr ''Conversion Factor 00 [General Info]'') (\<lambda>chan_factor.
         bind_err (py_div z_calib chan_factor) (\<lambda>z_calib'.
           Inr (z_calib', ''V'')))
       else Inr (z_calib, z_unit)))
     else Inr (z_calib, z_unit)))"

record wsxm_image =
  img_Z :: ndarray
  img_X :: "real list"
  img_Y :: "real list"
  img_header :: header
  img_unit_Z :: string
  img_unit_X :: string
  img_unit_Y :: string

text \<open>\<open>_wsxm_readimg(file, header_dict, pos)\<close>.\<close>

definition wsxm_readimg :: "prims \<Rightarrow> string \<Rightarrow> header \<Rightarrow> int \<Rightarrow> error + wsxm_image \<times> int" where
  "wsxm_readimg P file header_dict pos =
     bind_err (hdr_str header_dict ''Image Data Type [General Info]'') (\<lambda>data_format.
     bind_err (hdr_str header_dict ''Acquisition channel [General Info]'') (\<lambda>chan_label.
     bind_err (hdr_float0 P header_dict ''X-Frequency [Control]'') (\<lambda>line_rate.
     bind_err (hdr_int P header_dict ''Number of rows [General Info]'') (\<lambda>x_num.
     bind_err (hdr_int P header_dict ''Number of columns [General Info]'') (\<lambda>y_num.
     bind_err (hdr_float0 P header_dict ''X Amplitude [Control]'') (\<lambda>x_len.
     bind_err (hdr_float0 P header_dict ''Y Amplitude [Control]'') (\<lambda>y_len.
     bind_err (hdr_float0 P header_dict ''Z Amplitude [General Info]'') (\<lambda>z_len.
     bind_err (hdr_float P header_dict ''Minimum [Miscellaneous]'') (\<lambda>z_min.
     bind_err (hdr_float P header_dict ''Maximum [Miscellaneous]'') (\<lambda>z_max.
     bind_err (scan_offsets P header_dict) (\<lambda>(x_offset, y_offset).
     bind_err (np_linspace x_offset (x_len + x_offset) x_num) (\<lambda>x_data.
     bind_err (np_linspace (y_len + y_offset) y_offset y_num) (\<lambda>y_data.
     bind_err (data_type data_format) (\<lambda>(point_length, type_code).
     bind_err (read_array P file pos (x_num * y_num * point_length) type_code) (\<lambda>ch_array.
     bind_err (z_calibration P header_dict chan_label z_len z_min z_max) (\<lambda>(z_calib, z_unit).
     bind_err (reshape2 ch_array x_num y_num) (\<lambda>z.
     bind_err (hdr_last header_dict ''X Amplitude [Control]'') (\<lambda>x_unit.
     bind_err (hdr_last header_dict ''Y Amplitude [Control]'') (\<lambda>y_unit.
       Inr (\<lparr>img_Z = scale_array z_calib z, img_X = x_data, img_Y = y_data,
             img_header = header_dict, img_unit_Z = z_unit, img_unit_X = x_unit,
             img_unit_Y = y_unit\<rparr>,
            pos + x_num * y_num * point_length))))))))))))))))))))"

section \<open>WSxM readers: array orientation, channel keys and the interpreter state\<close>

text \<open>Multi-indices of a row-major array, and the numpy operations the readers use on
  whole arrays defined through them: \<open>a.T\<close>, \<open>np.flip(a)\<close>, \<open>np.flip(a, axis=k)\<close> and
  \<open>np.rot90(a, k=1, axes=(2, 1))\<close>, which is the flip of axis 1 followed by the exchange
  of axes 1 and 2.\<close>

definition unravel :: "nat list \<Rightarrow> nat \<Rightarrow> nat list" where
  "unravel s k = map (\<lambda>i. (k div prod_list (drop (Suc i) s)) mod (s ! i)) [0..<length s]"


definition np_build :: "nat list \<Rightarrow> (nat list \<Rightarrow> real) \<Rightarrow> ndarray" where
  "np_build s f = \<lparr>shape = s, flat = map (\<lambda>k. f (unravel s k)) [0..<prod_list s]\<rparr>"







text \<open>\<open>f"Channel_{int(channel_number):03d}"\<close>: the decimal digits, zero-padded to three.\<close>

function dec :: "nat \<Rightarrow> string" where
  "dec n = (if n < 10 then [char_of (48 + n)] else dec (n div 10) @ [char_of (48 + n mod 10)])"
  by pat_completeness auto
termination
  by (relation "measure id") auto



text \<open>
  The part of the interpreter state the readers change: the open file handles, and the
  objects that are shared and changed in place while curve files are merged. An address is
  an index into the list of its kind; allocation appends.
  \<^item> \<open>chan_dicts\<close>: the dictionaries from channel label to \<open>{'curves': ..., 'image': ...}\<close>
    (\<open>data_dict\<close> of \<open>_wsxm_readstp\<close>);
  \<^item> \<open>curve_dicts\<close>: the \<open>'curves'\<close> dictionaries, from curve index to curve;
  \<^item> \<open>data_dicts\<close>: the \<open>'data'\<close> dictionaries of the curves, from direction to x and y;
  \<^item> \<open>path_lists\<close>: the \<open>'File path'\<close> lists of \<open>_wsxm_readstp\<close>.
  A curve (its \<open>'header'\<close> and \<open>'units'\<close>) and a channel entry are never changed after they
  are built, and are values holding the addresses of their shared parts.
\<close>

datatype ckey = CInt int | CStr string

record xy =
  xy_x :: "real list option"
  xy_y :: "real list option"

record curve_entry =
  ce_header :: header
  ce_data :: nat
  ce_unit_x :: string
  ce_unit_y :: string

record chan_entry =
  ch_curves :: nat
  ch_image :: "wsxm_image option"

record pystate =
  open_files :: "path list"
  chan_dicts :: "(string \<times> chan_entry) list list"
  curve_dicts :: "(ckey \<times> curve_entry) list list"
  data_dicts :: "(string \<times> xy) list list"
  path_lists :: "path list list"

text \<open>\<open>open(path, 'rb')\<close> and \<open>file.close()\<close>.\<close>

definition py_open :: "filesystem \<Rightarrow> path \<Rightarrow> pystate \<Rightarrow> (error + string) \<times> pystate" where
  "py_open fs p st =
     (case fs_bytes fs p of
        None \<Rightarrow> (Inl FileNotFoundError, st)
      | Some bs \<Rightarrow> (Inr bs, st\<lparr>open_files := p # open_files st\<rparr>))"

definition py_close :: "path \<Rightarrow> pystate \<Rightarrow> pystate" where
  "py_close p st = st\<lparr>open_files := remove1 p (open_files st)\<rparr>"

section \<open>WSxM2DReader\<close>






section \<open>WSxM3DReader\<close>

record wsxm_volume =
  vol_ZZ :: ndarray
  vol_X :: "real list"
  vol_Y :: "real list"
  vol_Z :: "real list"
  vol_header :: header
  vol_unit_ZZ :: string
  vol_unit_X :: string
  vol_unit_Y :: string
  vol_unit_Z :: string

text \<open>The frame loops of \<open>_wsxm_readforcevol\<close> (lines 1275--1285) and \<open>_wsxm_readmovie\<close>
  (lines 1402--1434): \<open>n\<close> images of \<open>data_len\<close> bytes from \<open>pos\<close> on, each converted by
  \<open>f\<close> and appended.\<close>

fun read_frames ::
  "prims \<Rightarrow> string \<Rightarrow> int \<Rightarrow> int \<Rightarrow> string \<Rightarrow> (real \<Rightarrow> real) \<Rightarrow> nat \<Rightarrow> error + real list" where
  "read_frames P file pos data_len type_code f 0 = Inr []"
| "read_frames P file pos data_len type_code f (Suc n) =
     bind_err (read_array P file pos data_len type_code) (\<lambda>ch_array_temp.
     bind_err (read_frames P file (pos + data_len) data_len type_code f n) (\<lambda>more.
       Inr (map f ch_array_temp @ more)))"

text \<open>\<open>_wsxm_readmovie\<close> between \<open>open\<close> and \<open>file.close()\<close>.\<close>

definition readmovie_parse :: "prims \<Rightarrow> string \<Rightarrow> path \<Rightarrow> error + wsxm_volume \<times> string" where
  "readmovie_parse P file filepath =
     bind_err (wsxm_readheader P file 0) (\<lambda>(header_dict0, pos).
     let header_dict = dict_set header_dict0 ''File path'' (HPath filepath) in
     bind_err (hdr_str header_dict ''Image Data Type [General Info]'') (\<lambda>data_format.
     bind_err (hdr_str header_dict ''Acquisition channel [General Info]'') (\<lambda>chan_label.
     bind_err (hdr_int P header_dict ''Number of rows [General Info]'') (\<lambda>x_num.
     bind_err (hdr_int P header_dict ''Number of columns [General Info]'') (\<lambda>y_num.
     bind_err (hdr_int P header_dict ''Number of Frames [General Info]'') (\<lambda>chan_num.
     bind_err (hdr_float0 P header_dict ''X Amplitude [Control]'') (\<lambda>x_len.
     bind_err (hdr_float0 P header_dict ''Y Amplitude [Control]'') (\<lambda>y_len.
     bind_err (hdr_float0 P header_dict ''Z Amplitude [General Info]'') (\<lambda>z_len.
     bind_err (hdr_float P header_dict ''Minimum [Miscellaneous]'') (\<lambda>z_min.
     bind_err (hdr_float P header_dict ''Maximum [Miscellaneous]'') (\<lambda>z_max.
     bind_err (np_linspace 0 x_len x_num) (\<lambda>x_data.
     bind_err (np_linspace y_len 0 y_num) (\<lambda>y_data.
     bind_err (np_linspace 0 (of_int chan_num) chan_num) (\<lambda>z_data.
     bind_err (data_type data_format) (\<lambda>(point_length, type_code).
     bind_err (z_calibration P header_dict chan_label z_len z_min z_max) (\<lambda>(z_calib, z_unit).
     bind_err (read_frames P file pos (x_num * y_num * point_length) type_code
                 (\<lambda>v. z_calib * v) (nat chan_num)) (\<lambda>ch_array.
     bind_err (reshape_int ch_array [chan_num, y_num, x_num]) (\<lambda>zz.
     bind_err (hdr_last header_dict ''X Amplitude [Control]'') (\<lambda>x_unit.
     bind_err (hdr_last header_dict ''Y Amplitude [Control]'') (\<lambda>y_unit.
       Inr (\<lparr>vol_ZZ = zz, vol_X = x_data, vol_Y = y_data, vol_Z = z_data,
             vol_header = header_dict, vol_unit_ZZ = z_unit, vol_unit_X = x_unit,
             vol_unit_Y = y_unit, vol_unit_Z = ''frame''\<rparr>,
            chan_label)))))))))))))))))))))"



text \<open>Lines 1250--1256: the calibration of the topography image divides by the numpy
  difference of its extremes; on an empty image \<open>max()\<close> raises \<open>ValueError\<close>.\<close>

definition extreme_calib :: "real \<Rightarrow> real list \<Rightarrow> error + real" where
  "extreme_calib z_len arr =
     (if z_len = 0 then Inr 1
      else if arr = [] then Inl ValueError
      else Inr (z_len / (Max (set arr) - Min (set arr))))"








section \<open>WSxM1DReader: the curve files\<close>



definition alloc_curves :: "(ckey \<times> curve_entry) list \<Rightarrow> pystate \<Rightarrow> nat \<times> pystate" where
  "alloc_curves d st = (length (curve_dicts st), st\<lparr>curve_dicts := curve_dicts st @ [d]\<rparr>)"

definition alloc_data :: "(string \<times> xy) list \<Rightarrow> pystate \<Rightarrow> nat \<times> pystate" where
  "alloc_data d st = (length (data_dicts st), st\<lparr>data_dicts := data_dicts st @ [d]\<rparr>)"

definition alloc_paths :: "path list \<Rightarrow> pystate \<Rightarrow> nat \<times> pystate" where
  "alloc_paths d st = (length (path_lists st), st\<lparr>path_lists := path_lists st @ [d]\<rparr>)"



text \<open>\<open>str(n)\<close> for an integer, \<open>s.replace(sub, '')\<close>, and the curve index with its letter,
  \<open>f'{curv_ind}{chr(ord("a")+j)}'\<close> (letters beyond one byte are outside the embedding).\<close>

definition str_int :: "int \<Rightarrow> string" where
  "str_int i = (if i < 0 then CHR ''-'' # dec (nat (- i)) else dec (nat i))"


definition key_text :: "ckey \<Rightarrow> string" where
  "key_text k = (case k of CInt i \<Rightarrow> str_int i | CStr t \<Rightarrow> t)"




text \<open>\<open>np.split(a, sections)\<close> into equal parts.\<close>

fun chunks :: "nat \<Rightarrow> nat \<Rightarrow> 'a list \<Rightarrow> 'a list list" where
  "chunks 0 len xs = []"
| "chunks (Suc n) len xs = take len xs # chunks n len (drop len xs)"




















text \<open>\<open>_wsxm_readstp\<close>: what it reads before its loop (lines 1088--1140).\<close>

definition SPECT_DICT :: "(string \<times> string) list" where
  "SPECT_DICT = [(''Forward'', ''approach''), (''Backward'', ''retract''),
                 (''b'', ''retract''), (''f'', ''approach'')]"

definition spect_dir :: "string \<Rightarrow> error + string" where
  "spect_dir k = (case map_of SPECT_DICT k of None \<Rightarrow> Inl (KeyError k) | Some v \<Rightarrow> Inr v)"

text \<open>\<open>re.search(r'line\_\d{1}', t)\<close>: the first position of \<open>line_\<close> followed by a digit.\<close>

fun line_mark_here :: "string \<Rightarrow> bool" where
  "line_mark_here (a # b # c # d # e # f # rest) =
     (a = CHR ''l'' \<and> b = CHR ''i'' \<and> c = CHR ''n'' \<and> d = CHR ''e'' \<and> e = CHR ''_'' \<and> is_digit f)"
| "line_mark_here _ = False"

fun search_line_mark :: "string \<Rightarrow> nat option" where
  "search_line_mark [] = None"
| "search_line_mark (c # cs) =
     (if line_mark_here (c # cs) then Some 0 else map_option Suc (search_line_mark cs))"

text \<open>Lines 1100--1107: the channel label and the direction come from the file name.\<close>

definition stp_label_dir :: "string \<Rightarrow> string \<Rightarrow> error + string \<times> string" where
  "stp_label_dir filename x_dir =
     bind_err (py_index_end (split_on (CHR ''.'') filename) 2) (\<lambda>file_dirkey.
     if length file_dirkey = 1 then
       bind_err (spect_dir file_dirkey) (\<lambda>z_dir.
         Inr (hd (split_on (CHR ''.'') (last (split_on (CHR ''_'') filename))), z_dir))
     else
       (case search_line_mark file_dirkey of
          None \<Rightarrow> Inl AttributeError
        | Some start \<Rightarrow>
            bind_err (spect_dir x_dir) (\<lambda>z_dir.
              Inr (last (split_on (CHR ''_'') (take start file_dirkey)), z_dir))))"

record stp_info =
  si_label :: string
  si_z_dir :: string
  si_header :: header
  si_unit_x :: string
  si_unit_y :: string
  si_z_data :: "real list"
  si_rows :: "real list list"

definition stp_parse :: "prims \<Rightarrow> string \<Rightarrow> path \<Rightarrow> header \<Rightarrow> int \<Rightarrow> error + stp_info" where
  "stp_parse P file filepath header_dict1 pos =
     bind_err (hdr_str header_dict1 ''Image Data Type [General Info]'') (\<lambda>data_format.
     bind_err (hdr_int P header_dict1 ''Number of rows [General Info]'') (\<lambda>x_num.
     bind_err (hdr_int P header_dict1 ''Number of columns [General Info]'') (\<lambda>y_num.
     bind_err (hdr_float0 P header_dict1 ''X Amplitude [Control]'') (\<lambda>x_len.
     bind_err (hdr_float0 P header_dict1 ''Y Amplitude [Control]'') (\<lambda>y_len.
     bind_err (hdr_float0 P header_dict1 ''Z Amplitude [General Info]'') (\<lambda>z_len.
     bind_err (hdr_str header_dict1 ''X scanning direction [General Info]'') (\<lambda>x_dir.
     bind_err (hdr_str header_dict1 ''Y scanning direction [General Info]'') (\<lambda>y_dir.
     bind_err (stp_label_dir (p_name filepath) x_dir) (\<lambda>(chan_label, z_dir).
     bind_err (hdr_float0 P header_dict1 ''DSP voltage range [Miscellaneous]'') (\<lambda>dsp_voltrange.
     bind_err (scan_offsets P header_dict1) (\<lambda>(x_offset, y_offset).
     let header_dict = dict_set header_dict1 ''Spectroscopy channel'' (HStr chan_label) in
     bind_err (np_linspace x_offset (x_offset + x_len) y_num) (\<lambda>z_data.
     bind_err (data_type data_format) (\<lambda>(point_length, type_code).
     bind_err (read_array P file pos (x_num * y_num * point_length) type_code) (\<lambda>ch_array.
     bind_err (reshape2 ch_array x_num y_num) (\<lambda>ch_mat.
     bind_err (extreme_calib z_len ch_array) (\<lambda>z_calib.
     bind_err (hdr_last header_dict ''X Amplitude [Control]'') (\<lambda>unit_x.
     bind_err (hdr_last header_dict ''Z Amplitude [General Info]'') (\<lambda>unit_y.
       Inr \<lparr>si_label = chan_label, si_z_dir = z_dir, si_header = header_dict,
            si_unit_x = unit_x, si_unit_y = unit_y, si_z_data = z_data,
            si_rows = map (\<lambda>i. (if x_dir = ''Forward'' then rev else (\<lambda>r. r))
                                   (map (\<lambda>v. z_calib * v)
                                      (take (nat y_num) (drop (i * nat y_num) (flat ch_mat)))))
                        [0..<nat x_num]\<rparr>))))))))))))))))))"

text \<open>Lines 1143--1166: one pass of the loop of \<open>_wsxm_readstp\<close>, for the row \<open>i\<close>, on the
  dictionary at the address \<open>D\<close>. The objects it reaches are changed in place.\<close>

definition stp_ensure_chan :: "string \<Rightarrow> nat \<Rightarrow> pystate \<Rightarrow> pystate" where
  "stp_ensure_chan label D st =
     (if label \<in> set (map fst (chan_dicts st ! D)) then st
      else (let ac = alloc_curves [] st in
            (snd ac)\<lparr>chan_dicts := (chan_dicts (snd ac))
                       [D := dict_set (chan_dicts (snd ac) ! D) label
                               \<lparr>ch_curves = fst ac, ch_image = None\<rparr>]\<rparr>))"

definition stp_ensure_curve :: "stp_info \<Rightarrow> nat \<Rightarrow> ckey \<Rightarrow> int \<Rightarrow> pystate \<Rightarrow> pystate" where
  "stp_ensure_curve info c curv_ind x_num st =
     (if curv_ind \<in> set (map fst (curve_dicts st ! c)) then st
      else (let ad = alloc_data [] st in
            (snd ad)\<lparr>curve_dicts := (curve_dicts (snd ad))
                       [c := dict_set (curve_dicts (snd ad) ! c) curv_ind
                               \<lparr>ce_header = dict_set (dict_set (si_header info)
                                               ''Index of this Curve [Control]'' (HStr (key_text curv_ind)))
                                               ''Number of Curves in this serie [Control]'' (HStr (str_int x_num)),
                                ce_data = fst ad, ce_unit_x = si_unit_x info,
                                ce_unit_y = si_unit_y info\<rparr>]\<rparr>))"

definition stp_ensure_dir :: "string \<Rightarrow> nat \<Rightarrow> pystate \<Rightarrow> pystate" where
  "stp_ensure_dir z_dir d st =
     (if z_dir \<in> set (map fst (data_dicts st ! d)) then st
      else st\<lparr>data_dicts := (data_dicts st)
                 [d := dict_set (data_dicts st ! d) z_dir \<lparr>xy_x = None, xy_y = None\<rparr>]\<rparr>)"

definition stp_row :: "stp_info \<Rightarrow> path \<Rightarrow> nat \<Rightarrow> nat \<Rightarrow> pystate \<Rightarrow> (error + unit) \<times> pystate" where
  "stp_row info filepath D i st0 =
     (let curv_ind = CInt (int i + 1);
          st1 = stp_ensure_chan (si_label info) D st0;
          c = ch_curves (the (map_of (chan_dicts st1 ! D) (si_label info)));
          st2 = stp_ensure_curve info c curv_ind (int (length (si_rows info))) st1;
          e = the (map_of (curve_dicts st2 ! c) curv_ind);
          st3 = stp_ensure_dir (si_z_dir info) (ce_data e) st2
      in case map_of (ce_header e) ''File path'' of
           None \<Rightarrow> (Inl (KeyError ''File path''), st3)
         | Some (HPathList a) \<Rightarrow>
             (let st4 = (if filepath \<in> set (path_lists st3 ! a) then st3
                         else st3\<lparr>path_lists := (path_lists st3)[a := path_lists st3 ! a @ [filepath]]\<rparr>)
              in (Inr (),
                  st4\<lparr>data_dicts := (data_dicts st4)
                         [ce_data e := dict_set (data_dicts st4 ! ce_data e) (si_z_dir info)
                                         \<lparr>xy_x = Some (si_z_data info),
                                          xy_y = Some (si_rows info ! i)\<rparr>]\<rparr>))
         | Some _ \<Rightarrow> (Inl TypeError, st3))"

fun stp_rows :: "stp_info \<Rightarrow> path \<Rightarrow> nat \<Rightarrow> nat list \<Rightarrow> pystate \<Rightarrow> (error + unit) \<times> pystate" where
  "stp_rows info filepath D [] st = (Inr (), st)"
| "stp_rows info filepath D (i # rest) st =
     (case stp_row info filepath D i st of
        (Inl e, st') \<Rightarrow> (Inl e, st')
      | (Inr u, st') \<Rightarrow> stp_rows info filepath D rest st')"

text \<open>\<open>_wsxm_readstp(filepath, data_dict)\<close> with \<open>data_dict\<close> the dictionary at the address
  \<open>D\<close>. The result stands for the returned pair \<open>(data_dict, chan_label)\<close>: the dictionary
  is the one at \<open>D\<close>.\<close>

definition wsxm_readstp ::
  "filesystem \<Rightarrow> prims \<Rightarrow> path \<Rightarrow> nat \<Rightarrow> pystate \<Rightarrow> (error + string) \<times> pystate" where
  "wsxm_readstp fs P filepath D st =
     (case py_open fs filepath st of
        (Inl e, st1) \<Rightarrow> (Inl e, st1)
      | (Inr file, st1) \<Rightarrow>
          (case wsxm_readheader P file 0 of
             Inl e \<Rightarrow> (Inl e, st1)
           | Inr hp \<Rightarrow>
               (let ap = alloc_paths [filepath] st1 in
                case stp_parse P file filepath
                       (dict_set (fst hp) ''File path'' (HPathList (fst ap))) (snd hp) of
                  Inl e \<Rightarrow> (Inl e, snd ap)
                | Inr info \<Rightarrow>
                    (case stp_rows info filepath D [0..<length (si_rows info)] (snd ap) of
                       (Inl e, st2) \<Rightarrow> (Inl e, st2)
                     | (Inr u, st2) \<Rightarrow> (Inr (si_label info), py_close filepath st2)))))"

text \<open>The interpreter state after the module is imported: the default value \<open>{}\<close> of the
  parameter \<open>data_dict\<close> of \<open>_wsxm_readstp\<close> is built once, when the function is defined. It
  is the dictionary at the address 0, and a call that passes no \<open>data_dict\<close> uses it.\<close>

definition initial_state :: pystate where
  "initial_state =
     \<lparr>open_files = [], chan_dicts = [[]], curve_dicts = [], data_dicts = [], path_lists = []\<rparr>"

definition wsxm_readstp_default ::
  "filesystem \<Rightarrow> prims \<Rightarrow> path \<Rightarrow> pystate \<Rightarrow> (error + string) \<times> pystate" where
  "wsxm_readstp_default fs P filepath st = wsxm_readstp fs P filepath 0 st"

section \<open>WSxM1DReader.read\<close>













section \<open>Observations on results and the concrete files used below\<close>

definition datasets_of :: "'m py_return \<Rightarrow> 'm dataset list" where
  "datasets_of r = (case r of RetDict kvs \<Rightarrow> map snd kvs | RetList ds \<Rightarrow> ds | RetDataset d \<Rightarrow> [d])"

definition array_shapes :: "'m py_return \<Rightarrow> nat list list" where
  "array_shapes r = map (\<lambda>d. shape (ds_array d)) (datasets_of r)"

text \<open>The shape invariant of a channel record: one axis per dimension, and the values of
  each axis are a vector whose length is the extent of its dimension.\<close>

definition axes_match :: "'m dataset \<Rightarrow> bool" where
  "axes_match d =
     (map (\<lambda>ax. shape (ax_values ax)) (ds_axes d) = map (\<lambda>n. [n]) (shape (ds_array d)))"

text \<open>A scan of 4 by 3 positions (right - left = 4, top - bottom = 3) with 2 by 2 detector
  frames, and the same scan stopped one frame early.\<close>

definition mrc_4x3 :: mrc_file where
  "mrc_4x3 =
     \<lparr>mrc_data = \<lparr>shape = [12, 2, 2], flat = map real [0..<48]\<rparr>,
      extended_header =
        [(''Scan size right'', [4, 4, 4, 4, 4, 4, 4, 4, 4, 4, 4, 4]),
         (''Scan size left'', [0, 0, 0, 0, 0, 0, 0, 0, 0, 0, 0, 0]),
         (''Scan size top'', [3, 3, 3, 3, 3, 3, 3, 3, 3, 3, 3, 3]),
         (''Scan size bottom'', [0, 0, 0, 0, 0, 0, 0, 0, 0, 0, 0, 0]),
         (''Pixel size X'', [100000000, 100000000]),
         (''Pixel size Y'', [100000000, 100000000])]\<rparr>"

definition mrc_truncated :: mrc_file where
  "mrc_truncated = mrc_4x3\<lparr>mrc_data := \<lparr>shape = [11, 2, 2], flat = map real [0..<44]\<rparr>\<rparr>"

text \<open>A force curve of three points and two channels, \<open>Defl\<close> and \<open>Amp\<close>; the label list
  starts with the empty label of layer 0.\<close>

definition curve_no_zsnsr :: ibw_wave where
  "curve_no_zsnsr =
     \<lparr>ibw_note = [], wave_header = [],
      labels = [[], [LBytes [], LBytes ''Defl'', LBytes ''Amp''], [], []],
      wData = \<lparr>shape = [3, 2], flat = [10, 1, 20, 2, 30, 3]\<rparr>\<rparr>"

text \<open>Concrete primitives for the files below: \<open>int()\<close> and \<open>float()\<close> on optionally
  signed decimal literals (surrounding white space ignored), and \<open>struct\<close> on little-endian
  16-bit and 32-bit integers.\<close>

definition parse_nat :: "string \<Rightarrow> nat option" where
  "parse_nat t =
     (if t \<noteq> [] \<and> list_all is_digit t
      then Some (foldl (\<lambda>a c. 10 * a + (of_char c - 48)) 0 t) else None)"

definition dec_int :: "string \<Rightarrow> int option" where
  "dec_int t0 =
     (case strip t0 of
        [] \<Rightarrow> None
      | c # r \<Rightarrow>
          if c = CHR ''-'' then map_option (\<lambda>n. - int n) (parse_nat r)
          else if c = CHR ''+'' then map_option int (parse_nat r)
          else map_option int (parse_nat (c # r)))"

definition dec_unsigned :: "string \<Rightarrow> real option" where
  "dec_unsigned t =
     (case split_on (CHR ''.'') t of
        [a] \<Rightarrow> map_option real (parse_nat a)
      | [a, b] \<Rightarrow>
          (case (parse_nat a, parse_nat b) of
             (Some m, Some n) \<Rightarrow> Some (real m + real n / 10 ^ length b)
           | (Some m, None) \<Rightarrow> if b = [] then Some (real m) else None
           | (None, Some n) \<Rightarrow> if a = [] then Some (real n / 10 ^ length b) else None
           | (None, None) \<Rightarrow> None)
      | _ \<Rightarrow> None)"

definition dec_float :: "string \<Rightarrow> real option" where
  "dec_float t0 =
     (case strip t0 of
        [] \<Rightarrow> None
      | c # r \<Rightarrow>
          if c = CHR ''-'' then map_option uminus (dec_unsigned r)
          else if c = CHR ''+'' then dec_unsigned r
          else dec_unsigned (c # r))"

fun le_words :: "nat \<Rightarrow> string \<Rightarrow> nat list option" where
  "le_words w [] = Some []"
| "le_words w (c # cs) =
     (if length (c # cs) < w \<or> w = 0 then None
      else map_option
             (\<lambda>rest. foldr (\<lambda>b a. of_char b + 256 * a) (take w (c # cs)) 0 # rest)
             (le_words w (drop w (c # cs))))"

definition to_signed :: "nat \<Rightarrow> nat \<Rightarrow> real" where
  "to_signed bits n = (if n < 2 ^ (bits - 1) then real n else real n - 2 ^ bits)"

definition le_unpack :: "string \<Rightarrow> string \<Rightarrow> real list option" where
  "le_unpack type_code bs =
     (if type_code = ''h'' then map_option (map (to_signed 16)) (le_words 2 bs)
      else if type_code = ''H'' then map_option (map real) (le_words 2 bs)
      else if type_code = ''i'' then map_option (map (to_signed 32)) (le_words 4 bs)
      else None)"

definition dec_prims :: prims where
  "dec_prims = \<lparr>to_int = dec_int, to_float = dec_float, unpack = le_unpack\<rparr>"

definition crlf_lines :: "string list \<Rightarrow> string" where
  "crlf_lines ls = concat (map (\<lambda>l. l @ [CHR 0x0D, CHR 0x0A]) ls)"

text \<open>A WSxM image file: 1 row and 2 columns of 16-bit data (the values 3 and 4), a
  Topography channel whose declared Z amplitude is 0 nm.\<close>

definition topo_flat_header :: string where
  "topo_flat_header = crlf_lines
     [''WSxM file copyright UAM'', ''SxM Image file'', ''Image header size: 377'', [],
      ''[Control]'', [], ''    X Amplitude: 10 nm'', ''    X-Frequency: 1 Hz'',
      ''    Y Amplitude: 10 nm'', [],
      ''[General Info]'', [], ''    Acquisition channel: Topography'',
      ''    Image Data Type: short'', ''    Number of columns: 2'', ''    Number of rows: 1'',
      ''    Z Amplitude: 0 nm'', [],
      ''[Miscellaneous]'', [], ''    Maximum: 1'', ''    Minimum: 0'', [],
      ''[Header end]'']"

definition topo_flat_file :: string where
  "topo_flat_file = topo_flat_header @ [CHR 0x03, CHR 0x00, CHR 0x04, CHR 0x00]"

text \<open>The same layout with an Amplitude channel declared in nm: Z amplitude 2 nm, raw
  range 1 to 5, conversion factor 4 V, one frame with the values 8 and 16.\<close>

definition amp_header_text :: string where
  "amp_header_text = crlf_lines
     [''WSxM file copyright UAM'', ''SxM Image file'', ''Image header size: 432'', [],
      ''[Control]'', [], ''    X Amplitude: 10 nm'', ''    X-Frequency: 1 Hz'',
      ''    Y Amplitude: 10 nm'', [],
      ''[General Info]'', [], ''    Acquisition channel: Amplitude'',
      ''    Conversion Factor 00: 4 V'',
      ''    Image Data Type: short'', ''    Number of Frames: 1'',
      ''    Number of columns: 2'', ''    Number of rows: 1'',
      ''    Z Amplitude: 2 nm'', [],
      ''[Miscellaneous]'', [], ''    Maximum: 5'', ''    Minimum: 1'', [],
      ''[Header end]'']"

definition amp_file :: string where
  "amp_file = amp_header_text @ [CHR 0x08, CHR 0x00, CHR 0x10, CHR 0x00]"

text \<open>The header dictionaries \<open>_wsxm_readheader\<close> returns for the two files.\<close>

definition amp_header :: header where
  "amp_header =
     [(''Image header size SxM Image file'', HStr ''432''),
      (''X Amplitude [Control]'', HStr ''10 nm''),
      (''X-Frequency [Control]'', HStr ''1 Hz''),
      (''Y Amplitude [Control]'', HStr ''10 nm''),
      (''Acquisition channel [General Info]'', HStr ''Amplitude''),
      (''Conversion Factor 00 [General Info]'', HStr ''4 V''),
      (''Image Data Type [General Info]'', HStr ''short''),
      (''Number of Frames [General Info]'', HStr ''1''),
      (''Number of columns [General Info]'', HStr ''2''),
      (''Number of rows [General Info]'', HStr ''1''),
      (''Z Amplitude [General Info]'', HStr ''2 nm''),
      (''Maximum [Miscellaneous]'', HStr ''5''),
      (''Minimum [Miscellaneous]'', HStr ''1'')]"

definition topo_flat_hdr :: header where
  "topo_flat_hdr =
     [(''Image header size SxM Image file'', HStr ''377''),
      (''X Amplitude [Control]'', HStr ''10 nm''),
      (''X-Frequency [Control]'', HStr ''1 Hz''),
      (''Y Amplitude [Control]'', HStr ''10 nm''),
      (''Acquisition channel [General Info]'', HStr ''Topography''),
      (''Image Data Type [General Info]'', HStr ''short''),
      (''Number of columns [General Info]'', HStr ''2''),
      (''Number of rows [General Info]'', HStr ''1''),
      (''Z Amplitude [General Info]'', HStr ''0 nm''),
      (''Maximum [Miscellaneous]'', HStr ''1''),
      (''Minimum [Miscellaneous]'', HStr ''0'')]"

text \<open>A directory holding two files of run 0001 and one of run 0002.\<close>

definition sample_dir :: filesystem where
  "sample_dir =
     \<lparr>fs_listing = (\<lambda>d. if d = ''data'' then
          Some [(''other_0002.top'', True), (''sample_0001.ch1'', True), (''sample_0001.top'', True)]
          else None),
      fs_bytes = (\<lambda>p. None)\<rparr>"

text \<open>The calibration the claims speak of. \<open>base_calibration\<close> is the factor before the
  Amplitude correction; \<open>raw_image\<close> and \<open>raw_frames\<close> are the numbers as unpacked from the
  file, the image of \<open>_wsxm_readimg\<close> and the frames of \<open>_wsxm_readmovie\<close>.
  \<open>amplitude_rule P hdr raw out unit\<close> says how the output data and unit follow from the
  header and the raw data.\<close>

definition base_calibration :: "real \<Rightarrow> real \<Rightarrow> real \<Rightarrow> real" where
  "base_calibration z_len z_min z_max = (if z_len = 0 then 1 else z_len / (z_max - z_min))"

definition raw_image :: "prims \<Rightarrow> string \<Rightarrow> header \<Rightarrow> int \<Rightarrow> error + real list" where
  "raw_image P file hdr pos =
     bind_err (hdr_int P hdr ''Number of rows [General Info]'') (\<lambda>x_num.
     bind_err (hdr_int P hdr ''Number of columns [General Info]'') (\<lambda>y_num.
     bind_err (hdr_str hdr ''Image Data Type [General Info]'') (\<lambda>data_format.
     bind_err (data_type data_format) (\<lambda>(point_length, type_code).
       read_array P file pos (x_num * y_num * point_length) type_code))))"

definition raw_frames :: "prims \<Rightarrow> string \<Rightarrow> header \<Rightarrow> int \<Rightarrow> error + real list" where
  "raw_frames P file hdr pos =
     bind_err (hdr_int P hdr ''Number of rows [General Info]'') (\<lambda>x_num.
     bind_err (hdr_int P hdr ''Number of columns [General Info]'') (\<lambda>y_num.
     bind_err (hdr_int P hdr ''Number of Frames [General Info]'') (\<lambda>chan_num.
     bind_err (hdr_str hdr ''Image Data Type [General Info]'') (\<lambda>data_format.
     bind_err (data_type data_format) (\<lambda>(point_length, type_code).
       read_frames P file pos (x_num * y_num * point_length) type_code (\<lambda>v. v) (nat chan_num))))))"

definition amplitude_rule :: "prims \<Rightarrow> header \<Rightarrow> real list \<Rightarrow> real list \<Rightarrow> string \<Rightarrow> bool" where
  "amplitude_rule P hdr raw out unit =
     (\<exists>label zamp z_len z_min z_max.
        hdr_str hdr ''Acquisition channel [General Info]'' = Inr label
      \<and> hdr_str hdr ''Z Amplitude [General Info]'' = Inr zamp
      \<and> py_float P (hd (split_on CHR '' '' zamp)) = Inr z_len
      \<and> hdr_float P hdr ''Minimum [Miscellaneous]'' = Inr z_min
      \<and> hdr_float P hdr ''Maximum [Miscellaneous]'' = Inr z_max
      \<and> (if label = ''Amplitude'' \<and> py_index (split_on CHR '' '' zamp) 1 \<noteq> Inr ''V''
          then \<exists>chan_factor.
                 hdr_float0 P hdr ''Conversion Factor 00 [General Info]'' = Inr chan_factor
               \<and> out = map (\<lambda>v. base_calibration z_len z_min z_max / chan_factor * v) raw
               \<and> unit = ''V''
          else out = map (\<lambda>v. base_calibration z_len z_min z_max * v) raw
               \<and> unit = last (split_on CHR '' '' zamp)))"


text \<open>A WSxM image of one pixel (the value 7), and a file whose header names the channel
  and nothing else.\<close>

definition pixel_file :: string where
  "pixel_file = crlf_lines
     [''WSxM file copyright UAM'', ''SxM Image file'', ''Image header size: 377'', [],
      ''[Control]'', [], ''    X Amplitude: 10 nm'', ''    X-Frequency: 1 Hz'',
      ''    Y Amplitude: 10 nm'', [],
      ''[General Info]'', [], ''    Acquisition channel: Topography'',
      ''    Image Data Type: short'', ''    Number of columns: 1'', ''    Number of rows: 1'',
      ''    Z Amplitude: 0 nm'', [],
      ''[Miscellaneous]'', [], ''    Maximum: 1'', ''    Minimum: 0'', [],
      ''[Header end]''] @ [CHR 0x07, CHR 0x00]"

definition short_header_file :: string where
  "short_header_file = crlf_lines
     [''WSxM file copyright UAM'', ''SxM Image file'', ''Image header size: 138'', [],
      ''[General Info]'', [], ''    Acquisition channel: Topography'', [],
      ''[Header end]'']"

text \<open>Two \<open>.stp\<close> files of one row and two columns: the approach (values 3 and 4) and the
  retract (values 5 and 6) of the same curve.\<close>

definition stp_header :: string where
  "stp_header = crlf_lines
     [''WSxM file copyright UAM'', ''SxM Image file'', ''Image header size: 380'', [],
      ''[Control]'', [], ''    X Amplitude: 10 nm'', ''    Y Amplitude: 10 nm'', [],
      ''[General Info]'', [], ''    Image Data Type: short'', ''    Number of columns: 2'',
      ''    Number of rows: 1'', ''    X scanning direction: Backward'',
      ''    Y scanning direction: Up'', ''    Z Amplitude: 0 nm'', [],
      ''[Miscellaneous]'', [], ''    DSP voltage range: 10 V'', [],
      ''[Header end]'']"

definition stp_approach_file :: string where
  "stp_approach_file = stp_header @ [CHR 0x03, CHR 0x00, CHR 0x04, CHR 0x00]"

definition stp_retract_file :: string where
  "stp_retract_file = stp_header @ [CHR 0x05, CHR 0x00, CHR 0x06, CHR 0x00]"

text \<open>A directory with one group for each WSxM reader, and the file with the short
  header.\<close>

definition scans :: filesystem where
  "scans =
     \<lparr>fs_listing = (\<lambda>d. if d = ''scans'' then
          Some [(''bad_0005.top'', True), (''img_0001.top'', True), (''mov_0002.mpp'', True),
                (''run_0003_Normal force.b.stp'', True), (''run_0003_Normal force.f.stp'', True)]
          else None),
      fs_bytes = (\<lambda>p.
          if p_parent p \<noteq> ''scans'' then None
          else if p_name p = ''bad_0005.top'' then Some short_header_file
          else if p_name p = ''img_0001.top'' then Some pixel_file
          else if p_name p = ''mov_0002.mpp'' then Some amp_file
          else if p_name p = ''run_0003_Normal force.b.stp'' then Some stp_retract_file
          else if p_name p = ''run_0003_Normal force.f.stp'' then Some stp_approach_file
          else None)\<rparr>"

definition scan_file :: "string \<Rightarrow> path" where
  "scan_file nm = \<lparr>p_parent = ''scans'', p_name = nm\<rparr>"

text \<open>The header dictionary \<open>_wsxm_readheader\<close> returns for the two \<open>.stp\<close> files, what
  \<open>_wsxm_readstp\<close> reads from them before its loop, and the contents of a channel
  dictionary with the addresses followed: for each channel label and curve index the
  \<open>'data'\<close> dictionary of the curve.\<close>

definition stp_hdr :: header where
  "stp_hdr =
     [(''Image header size SxM Image file'', HStr ''380''),
      (''X Amplitude [Control]'', HStr ''10 nm''),
      (''Y Amplitude [Control]'', HStr ''10 nm''),
      (''Image Data Type [General Info]'', HStr ''short''),
      (''Number of columns [General Info]'', HStr ''2''),
      (''Number of rows [General Info]'', HStr ''1''),
      (''X scanning direction [General Info]'', HStr ''Backward''),
      (''Y scanning direction [General Info]'', HStr ''Up''),
      (''Z Amplitude [General Info]'', HStr ''0 nm''),
      (''DSP voltage range [Miscellaneous]'', HStr ''10 V'')]"

definition stp_info_of :: "string \<Rightarrow> nat \<Rightarrow> real list \<Rightarrow> stp_info" where
  "stp_info_of z_dir a row =
     \<lparr>si_label = ''Normal force'', si_z_dir = z_dir,
      si_header = stp_hdr @ [(''File path'', HPathList a),
                             (''Spectroscopy channel'', HStr ''Normal force'')],
      si_unit_x = ''nm'', si_unit_y = ''nm'', si_z_data = [0, 10], si_rows = [row]\<rparr>"

definition dict_contents :: "pystate \<Rightarrow> nat \<Rightarrow> (string \<times> (ckey \<times> (string \<times> xy) list) list) list" where
  "dict_contents st D =
     map (\<lambda>lc. (fst lc, map (\<lambda>ke. (fst ke, data_dicts st ! ce_data (snd ke)))
                          (curve_dicts st ! ch_curves (snd lc))))
       (chan_dicts st ! D)"


section \<open>Verified properties\<close>

subsection \<open>MRC: handedness and the reshape\<close>

lemma bind_err_Inr [simp]: "bind_err (Inr x) f = f x"
  by (simp add: bind_err_def)

lemma bind_err_Inl [simp]: "bind_err (Inl e) f = Inl e"
  by (simp add: bind_err_def)

lemma bind_err_eq_Inr:
  "bind_err m f = Inr y \<longleftrightarrow> (\<exists>x. m = Inr x \<and> f x = Inr y)"
  by (cases m) simp_all

text \<open>
  C2, as stated, fails: the code takes \<open>y_shape\<close> from the right/left sizes and \<open>x_shape\<close>
  from the top/bottom sizes, so for right - left = 4 and top - bottom = 3 the handedness
  \<open>right\<close> gives the shape (3, 4, 2, 2), not (4, 3, 2, 2).
\<close>

theorem mrc_handedness_counterexample:
  "map_sum id array_shapes (mrc_read None mrc_4x3 ''right'' None) = Inr [[3, 4, 2, 2]]
   \<and> map_sum id array_shapes (mrc_read None mrc_4x3 ''right'' None) \<noteq> Inr [[4, 3, 2, 2]]
   \<and> map_sum id array_shapes (mrc_read None mrc_4x3 ''left'' None) = Inr [[4, 3, 2, 2]]"
  by code_simp

text \<open>
  C2, amended: for an MRC file whose scan-size fields are constant over the frames with
  right - left = 4 and top - bottom = 3, whose pixel-size fields are constant, and whose
  data block holds 48 elements in frames of shape (2, 2), \<open>read\<close> with handedness \<open>right\<close>
  returns an array of shape (3, 4, 2, 2), with \<open>left\<close> one of shape (4, 3, 2, 2), and with
  any other handedness it raises (the unbound \<open>reshape_target\<close>).
\<close>

theorem mrc_handedness:
  assumes "map_of (extended_header mrc) ''Scan size right'' = Some cr" and "np_unique cr = [r]"
    and "map_of (extended_header mrc) ''Scan size left'' = Some cl" and "np_unique cl = [l]"
    and "map_of (extended_header mrc) ''Scan size top'' = Some ct" and "np_unique ct = [t]"
    and "map_of (extended_header mrc) ''Scan size bottom'' = Some cb" and "np_unique cb = [b]"
    and "map_of (extended_header mrc) ''Pixel size X'' = Some cx" and "np_unique cx = [px]"
    and "map_of (extended_header mrc) ''Pixel size Y'' = Some cy" and "np_unique cy = [py]"
    and "r - l = 4" and "t - b = 3"
    and "py_index_end (shape (mrc_data mrc)) 2 = Inr 2"
    and "py_index_end (shape (mrc_data mrc)) 1 = Inr 2"
    and "np_size (shape (mrc_data mrc)) = 48"
  shows "map_sum id array_shapes (mrc_read sd mrc ''right'' sps) = Inr [[3, 4, 2, 2]]
       \<and> map_sum id array_shapes (mrc_read sd mrc ''left'' sps) = Inr [[4, 3, 2, 2]]
       \<and> (h \<noteq> ''right'' \<and> h \<noteq> ''left''
            \<longrightarrow> mrc_read sd mrc h sps = Inl (UnboundLocalError ''reshape_target''))"
  using assms
  by (simp add: mrc_read_def scan_shape_def scan_shape_params_def header_field_def
       flatten_sizes_def py_index_def int_abs_diff_def wrap32_def reshape_target_def
       try_reshape_def np_reshape_int_def
       np_reshape_def np_size_def camera_pixel_sizes_def mrc_dataset_def from_array_chunks_def
       from_array_def scan_axis_def detector_axis_def set_dimension_def np_mul_def np_arange_def
       array_shapes_def datasets_of_def Dimension_def vector_def)

theorem mrc_handedness_witness:
  "map_sum id array_shapes (mrc_read None mrc_4x3 ''right'' (Some 1)) = Inr [[3, 4, 2, 2]]
   \<and> map_sum id array_shapes (mrc_read None mrc_4x3 ''left'' (Some 1)) = Inr [[4, 3, 2, 2]]
   \<and> mrc_read None mrc_4x3 ''up'' (Some 1) = Inl (UnboundLocalError ''reshape_target'')"
proof -
  have r: "map_of (extended_header mrc_4x3) ''Scan size right'' = Some [4, 4, 4, 4, 4, 4, 4, 4, 4, 4, 4, 4]"
    and l: "map_of (extended_header mrc_4x3) ''Scan size left'' = Some [0, 0, 0, 0, 0, 0, 0, 0, 0, 0, 0, 0]"
    and t: "map_of (extended_header mrc_4x3) ''Scan size top'' = Some [3, 3, 3, 3, 3, 3, 3, 3, 3, 3, 3, 3]"
    and b: "map_of (extended_header mrc_4x3) ''Scan size bottom'' = Some [0, 0, 0, 0, 0, 0, 0, 0, 0, 0, 0, 0]"
    and x: "map_of (extended_header mrc_4x3) ''Pixel size X'' = Some [100000000, 100000000]"
    and y: "map_of (extended_header mrc_4x3) ''Pixel size Y'' = Some [100000000, 100000000]"
    by (simp_all add: mrc_4x3_def)
  have ur: "np_unique [4, 4, 4, 4, 4, 4, 4, 4, 4, 4, 4, 4] = [4]"
    and ul: "np_unique [0, 0, 0, 0, 0, 0, 0, 0, 0, 0, 0, 0] = [0]"
    and ut: "np_unique [3, 3, 3, 3, 3, 3, 3, 3, 3, 3, 3, 3] = [3]"
    and ux: "np_unique [100000000, 100000000] = [100000000]"
    by (simp_all add: np_unique_def)
  have d: "(4::real) - 0 = 4" "(3::real) - 0 = 3" by simp_all
  have s: "py_index_end (shape (mrc_data mrc_4x3)) 2 = Inr 2"
    "py_index_end (shape (mrc_data mrc_4x3)) 1 = Inr 2"
    "np_size (shape (mrc_data mrc_4x3)) = 48"
    by (simp_all add: mrc_4x3_def py_index_end_def np_size_def)
  from mrc_handedness [OF r ur l ul t ut b ul x ux y ux d s,
      where h = "''up''" and sd = None and sps = "Some 1"]
  show ?thesis by simp
qed

text \<open>The handedness check never falls back to a default: every other value raises,
  whatever the file.\<close>

lemma mrc_other_handedness_raises:
  "h \<noteq> ''right'' \<Longrightarrow> h \<noteq> ''left'' \<Longrightarrow> \<exists>e. mrc_read sd mrc h sps = Inl e"
  by (auto simp add: mrc_read_def bind_err_def reshape_target_def try_reshape_def
      split: sum.splits prod.splits)

subsection \<open>MRC: a truncated scan\<close>

text \<open>
  C3: the reader catches the \<open>ValueError\<close> of the failed reshape and goes on, but
  \<open>self.data\<close> is still \<open>None\<close> when the dataset is built: the dataset has no dimension,
  and \<open>dataset.shape[0]\<close> (line 120) raises \<open>IndexError\<close>. The call returns no record. At
  the scan stopped one frame early:
\<close>

theorem mrc_truncated_raises:
  "mrc_read None mrc_truncated ''right'' None = Inl IndexError
   \<and> mrc_read None mrc_truncated ''left'' None = Inl IndexError"
  by code_simp

text \<open>The same for every file and either handedness: a fresh reader whose reshape fails
  returns no record.\<close>

lemma mrc_short_buffer_raises:
  assumes "scan_shape (extended_header mrc) = Inr (x, y)"
    and "reshape_target h x y (shape (mrc_data mrc)) = Inr (Some t)"
    and "np_reshape_int (mrc_data mrc) t = Inl e'"
  shows "\<exists>e. mrc_read None mrc h sps = Inl e"
  using assms
  by (simp add: mrc_read_def try_reshape_def mrc_dataset_def scan_axis_def py_index_def
      from_array_chunks_def from_array_def Let_def bind_err_def split: sum.splits)

subsection \<open>Igor: the force-curve axis without ZSnsr and Raw\<close>

text \<open>
  C4: with neither \<open>ZSnsr\<close> nor \<open>Raw\<close> among the labels the spectral axis is
  \<open>arange(images.shape[2])\<close>, the number of segments, not the number of points. For the
  curve of three points this axis has the one value 0, and \<open>set_dimension\<close> refuses it for
  a dimension of three values: the read raises \<open>ValueError\<close> and returns no record.
\<close>

theorem igor_fallback_axis_is_segment_index:
  "\<forall>P. igor_spec_data [''Defl'', ''Amp''] (atleast_3d (wData curve_no_zsnsr))
          = Inr (vector [0])
        \<and> igor_read P curve_no_zsnsr = Inl ValueError"
proof
  fix P
  show "igor_spec_data [''Defl'', ''Amp''] (atleast_3d (wData curve_no_zsnsr))
          = Inr (vector [0])
        \<and> igor_read P curve_no_zsnsr = Inl ValueError"
    by code_simp
qed

subsection \<open>WSxM: file groups\<close>

lemma first_of_two:
  assumes "set xs = {a, b}" and "distinct xs" and "a \<noteq> b"
  shows "a # remove1 a xs = [a, b]"
proof -
  have "length xs = 2" using assms distinct_card[of xs] by simp
  then obtain x y where xs: "xs = [x, y]"
    by (cases xs; cases "tl xs") auto
  with assms show ?thesis by (auto simp: doubleton_eq_iff)
qed

lemma filter_three:
  "distinct [a, b, c] \<Longrightarrow> P a \<Longrightarrow> P b \<Longrightarrow> \<not> P c \<Longrightarrow> set xs = {a, b, c}
     \<Longrightarrow> set (filter P xs) = {a, b}"
  by auto

lemma get_common_files_all:
  assumes "search_run_index (p_name fp) = Some i"
    and "fs_listing fs (p_parent fp) = Some entries"
    and "files = map (\<lambda>e. \<lparr>p_parent = p_parent fp, p_name = fst e\<rparr>)
                   (filter (\<lambda>e. snd e \<and> startswith (fst e) (take (i + 5) (p_name fp))) entries)"
    and "fp \<in> set files"
  shows "wsxm_get_common_files fs fp None = Inr (fp # remove1 fp files)"
  using assms by (simp add: wsxm_get_common_files_def)

text \<open>
  C9: in a directory whose entries are exactly the files \<open>sample_0001.top\<close>,
  \<open>sample_0001.ch1\<close> and \<open>other_0002.top\<close>, in whatever order the directory lists them, the
  group of \<open>sample_0001.top\<close> is that path followed by \<open>sample_0001.ch1\<close>.
\<close>

theorem wsxm_group_discovery:
  assumes l: "fs_listing fs d = Some entries"
    and s: "set entries = {(''sample_0001.top'', True), (''sample_0001.ch1'', True),
                           (''other_0002.top'', True)}"
    and dist: "distinct entries"
  shows "wsxm_get_common_files fs \<lparr>p_parent = d, p_name = ''sample_0001.top''\<rparr> None
         = Inr [\<lparr>p_parent = d, p_name = ''sample_0001.top''\<rparr>,
                \<lparr>p_parent = d, p_name = ''sample_0001.ch1''\<rparr>]"
proof -
  define top where "top = \<lparr>p_parent = d, p_name = ''sample_0001.top''\<rparr>"
  define ch1 where "ch1 = \<lparr>p_parent = d, p_name = ''sample_0001.ch1''\<rparr>"
  define mk where "mk = (\<lambda>e :: string \<times> bool. \<lparr>p_parent = d, p_name = fst e\<rparr>)"
  define matches where
    "matches = filter (\<lambda>e. snd e \<and> startswith (fst e) ''sample_0001'') entries"
  have idx: "search_run_index ''sample_0001.top'' = Some 6" by code_simp
  have com: "take (6 + 5) ''sample_0001.top'' = ''sample_0001''" by simp
  have set_matches: "set matches = {(''sample_0001.top'', True), (''sample_0001.ch1'', True)}"
    unfolding matches_def by (rule filter_three[OF _ _ _ _ s]) (simp_all add: startswith_def)
  have "inj_on mk (set matches)" unfolding set_matches by (simp add: mk_def)
  moreover have "distinct matches" using dist by (simp add: matches_def)
  ultimately have dist_files: "distinct (map mk matches)"
    by (simp add: distinct_map)
  have set_files: "set (map mk matches) = {top, ch1}"
    using set_matches by (simp add: mk_def top_def ch1_def)
  have ne: "top \<noteq> ch1" by (simp add: top_def ch1_def)
  have two: "top # remove1 top (map mk matches) = [top, ch1]"
    by (rule first_of_two[OF set_files dist_files ne])
  have mem: "top \<in> set (map mk matches)" using set_files by simp
  have "wsxm_get_common_files fs top None = Inr (top # remove1 top (map mk matches))"
  proof (rule get_common_files_all[where i = 6 and entries = entries])
    show "search_run_index (p_name top) = Some 6" using idx by (simp only: top_def path.simps)
    show "fs_listing fs (p_parent top) = Some entries" using l by (simp add: top_def)
    show "map mk matches = map (\<lambda>e. \<lparr>p_parent = p_parent top, p_name = fst e\<rparr>)
            (filter (\<lambda>e. snd e \<and> startswith (fst e) (take (6 + 5) (p_name top))) entries)"
      using com by (simp only: top_def path.simps mk_def matches_def)
    show "top \<in> set (map mk matches)" by (rule mem)
  qed
  with two show ?thesis by (simp add: top_def ch1_def)
qed

theorem wsxm_group_discovery_witness:
  "wsxm_get_common_files sample_dir \<lparr>p_parent = ''data'', p_name = ''sample_0001.top''\<rparr> None
   = Inr [\<lparr>p_parent = ''data'', p_name = ''sample_0001.top''\<rparr>,
          \<lparr>p_parent = ''data'', p_name = ''sample_0001.ch1''\<rparr>]"
proof -
  have l: "fs_listing sample_dir ''data''
           = Some [(''other_0002.top'', True), (''sample_0001.ch1'', True), (''sample_0001.top'', True)]"
    by (simp add: sample_dir_def)
  have s: "set [(''other_0002.top'', True), (''sample_0001.ch1'', True), (''sample_0001.top'', True)]
           = {(''sample_0001.top'', True), (''sample_0001.ch1'', True), (''other_0002.top'', True)}"
    by (simp add: insert_commute)
  have d: "distinct [(''other_0002.top'', True), (''sample_0001.ch1'', True), (''sample_0001.top'', True)]"
    by simp
  from wsxm_group_discovery [OF l s d] show ?thesis .
qed

subsection \<open>WSxM: the calibration of the Amplitude channel\<close>

lemma bind_err_InrE:
  assumes "bind_err m f = Inr y"
  obtains x where "m = Inr x" and "f x = Inr y"
  using assms by (cases m) auto

lemma reshape_int_flat: "reshape_int xs dims = Inr z \<Longrightarrow> flat z = xs"
  by (auto simp add: reshape_int_def np_reshape_def vector_def Let_def split: if_splits)

lemma z_calibration_rule:
  assumes "z_calibration P hdr label z_len z_min z_max = Inr (cal, unit)"
    and "hdr_str hdr ''Z Amplitude [General Info]'' = Inr zamp"
  shows "if label = ''Amplitude'' \<and> py_index (split_on CHR '' '' zamp) 1 \<noteq> Inr ''V''
         then \<exists>chan_factor. hdr_float0 P hdr ''Conversion Factor 00 [General Info]'' = Inr chan_factor
                \<and> cal = base_calibration z_len z_min z_max / chan_factor \<and> unit = ''V''
         else cal = base_calibration z_len z_min z_max \<and> unit = last (split_on CHR '' '' zamp)"
  using assms
  by (auto simp add: z_calibration_def base_calibration_def bind_err_eq_Inr py_div_def hdr_last_def
      py_index_def split: if_splits)

lemma amplitude_ruleI:
  assumes "hdr_str hdr ''Acquisition channel [General Info]'' = Inr label"
    and "hdr_str hdr ''Z Amplitude [General Info]'' = Inr zamp"
    and "py_float P (hd (split_on CHR '' '' zamp)) = Inr z_len"
    and "hdr_float P hdr ''Minimum [Miscellaneous]'' = Inr z_min"
    and "hdr_float P hdr ''Maximum [Miscellaneous]'' = Inr z_max"
    and "z_calibration P hdr label z_len z_min z_max = Inr (cal, unit)"
    and "out = map (\<lambda>v. cal * v) raw"
    and "unit' = unit"
  shows "amplitude_rule P hdr raw out unit'"
proof -
  note r = z_calibration_rule[OF assms(6) assms(2)]
  show ?thesis
  proof (cases "label = ''Amplitude'' \<and> py_index (split_on CHR '' '' zamp) 1 \<noteq> Inr ''V''")
    case True
    with r obtain chan_factor where
      "hdr_float0 P hdr ''Conversion Factor 00 [General Info]'' = Inr chan_factor"
      "cal = base_calibration z_len z_min z_max / chan_factor" "unit = ''V''"
      by auto
    with True assms(1-5,7,8) show ?thesis
      unfolding amplitude_rule_def
      by (rule_tac x = label in exI, rule_tac x = zamp in exI, rule_tac x = z_len in exI,
          rule_tac x = z_min in exI, rule_tac x = z_max in exI) auto
  next
    case False
    with r have "cal = base_calibration z_len z_min z_max" "unit = last (split_on CHR '' '' zamp)"
      by auto
    with False assms(1-5,7,8) show ?thesis
      unfolding amplitude_rule_def
      by (rule_tac x = label in exI, rule_tac x = zamp in exI, rule_tac x = z_len in exI,
          rule_tac x = z_min in exI, rule_tac x = z_max in exI) auto
  qed
qed

lemma readimg_facts:
  assumes "wsxm_readimg P file hdr pos = Inr (img, pos')"
  obtains data_format chan_label x_num y_num z_len z_min z_max point_length type_code
      ch_array z_calib z_unit z where
      "hdr_str hdr ''Image Data Type [General Info]'' = Inr data_format"
      "hdr_str hdr ''Acquisition channel [General Info]'' = Inr chan_label"
      "hdr_int P hdr ''Number of rows [General Info]'' = Inr x_num"
      "hdr_int P hdr ''Number of columns [General Info]'' = Inr y_num"
      "hdr_float0 P hdr ''Z Amplitude [General Info]'' = Inr z_len"
      "hdr_float P hdr ''Minimum [Miscellaneous]'' = Inr z_min"
      "hdr_float P hdr ''Maximum [Miscellaneous]'' = Inr z_max"
      "data_type data_format = Inr (point_length, type_code)"
      "read_array P file pos (x_num * y_num * point_length) type_code = Inr ch_array"
      "z_calibration P hdr chan_label z_len z_min z_max = Inr (z_calib, z_unit)"
      "reshape2 ch_array x_num y_num = Inr z"
      "img_Z img = scale_array z_calib z" "img_unit_Z img = z_unit"
  using assms unfolding wsxm_readimg_def
  apply (elim bind_err_InrE)
  apply (simp only: split_paired_all prod.case)
  apply (elim bind_err_InrE)
  apply (simp only: split_paired_all prod.case)
  apply (elim bind_err_InrE)
  apply (simp only: split_paired_all prod.case)
  apply (elim bind_err_InrE)
  apply clarsimp
  done

lemma readimg_rule:
  assumes "wsxm_readimg P file hdr pos = Inr (img, pos')"
  shows "\<exists>raw. raw_image P file hdr pos = Inr raw
           \<and> amplitude_rule P hdr raw (flat (img_Z img)) (img_unit_Z img)"
proof -
  from assms obtain data_format chan_label x_num y_num z_len z_min z_max point_length type_code
      ch_array z_calib z_unit z where
      f: "hdr_str hdr ''Image Data Type [General Info]'' = Inr data_format"
      "hdr_str hdr ''Acquisition channel [General Info]'' = Inr chan_label"
      "hdr_int P hdr ''Number of rows [General Info]'' = Inr x_num"
      "hdr_int P hdr ''Number of columns [General Info]'' = Inr y_num"
      "hdr_float0 P hdr ''Z Amplitude [General Info]'' = Inr z_len"
      "hdr_float P hdr ''Minimum [Miscellaneous]'' = Inr z_min"
      "hdr_float P hdr ''Maximum [Miscellaneous]'' = Inr z_max"
      "data_type data_format = Inr (point_length, type_code)"
      "read_array P file pos (x_num * y_num * point_length) type_code = Inr ch_array"
      "z_calibration P hdr chan_label z_len z_min z_max = Inr (z_calib, z_unit)"
      "reshape2 ch_array x_num y_num = Inr z"
      "img_Z img = scale_array z_calib z" "img_unit_Z img = z_unit"
    by (rule readimg_facts)
  from f(5) obtain zamp where z: "hdr_str hdr ''Z Amplitude [General Info]'' = Inr zamp"
     "py_float P (hd (split_on CHR '' '' zamp)) = Inr z_len"
    by (auto simp add: hdr_float0_def bind_err_eq_Inr)
  have raw: "raw_image P file hdr pos = Inr ch_array"
    using f(1) f(3) f(4) f(8) f(9) by (simp add: raw_image_def)
  have fl: "flat (img_Z img) = map (\<lambda>v. z_calib * v) ch_array"
    using f(11,12) by (simp add: scale_array_def reshape2_def reshape_int_flat)
  have "amplitude_rule P hdr ch_array (flat (img_Z img)) (img_unit_Z img)"
    by (rule amplitude_ruleI[OF f(2) z(1) z(2) f(6) f(7) f(10) fl f(13)])
  with raw show ?thesis by blast
qed

lemma read_frames_map:
  "read_frames P file pos data_len type_code f n = Inr out \<Longrightarrow>
     \<exists>raw. read_frames P file pos data_len type_code (\<lambda>v. v) n = Inr raw \<and> out = map f raw"
proof (induction n arbitrary: pos out)
  case 0
  then show ?case by simp
next
  case (Suc n)
  from Suc.prems obtain a more where a: "read_array P file pos data_len type_code = Inr a"
    and m: "read_frames P file (pos + data_len) data_len type_code f n = Inr more"
    and o: "out = map f a @ more"
    by (auto simp add: bind_err_eq_Inr)
  from Suc.IH[OF m] obtain raw where
    "read_frames P file (pos + data_len) data_len type_code (\<lambda>v. v) n = Inr raw"
    "more = map f raw" by blast
  with a o show ?case by simp
qed

lemma readmovie_facts:
  assumes "readmovie_parse P file filepath = Inr (vol, lab)"
  obtains hdr0 pos hdr data_format chan_label x_num y_num chan_num z_len z_min z_max
      point_length type_code ch_array z_calib z_unit zz where
      "wsxm_readheader P file 0 = Inr (hdr0, pos)"
      "hdr = dict_set hdr0 ''File path'' (HPath filepath)"
      "hdr_str hdr ''Image Data Type [General Info]'' = Inr data_format"
      "hdr_str hdr ''Acquisition channel [General Info]'' = Inr chan_label"
      "hdr_int P hdr ''Number of rows [General Info]'' = Inr x_num"
      "hdr_int P hdr ''Number of columns [General Info]'' = Inr y_num"
      "hdr_int P hdr ''Number of Frames [General Info]'' = Inr chan_num"
      "hdr_float0 P hdr ''Z Amplitude [General Info]'' = Inr z_len"
      "hdr_float P hdr ''Minimum [Miscellaneous]'' = Inr z_min"
      "hdr_float P hdr ''Maximum [Miscellaneous]'' = Inr z_max"
      "data_type data_format = Inr (point_length, type_code)"
      "read_frames P file pos (x_num * y_num * point_length) type_code (\<lambda>v. z_calib * v)
         (nat chan_num) = Inr ch_array"
      "z_calibration P hdr chan_label z_len z_min z_max = Inr (z_calib, z_unit)"
      "reshape_int ch_array [chan_num, y_num, x_num] = Inr zz"
      "vol_ZZ vol = zz" "vol_unit_ZZ vol = z_unit" "vol_header vol = hdr"
  using assms unfolding readmovie_parse_def Let_def
  apply (elim bind_err_InrE)
  apply (simp only: split_paired_all prod.case)
  apply (elim bind_err_InrE)
  apply (simp only: split_paired_all prod.case)
  apply (elim bind_err_InrE)
  apply (simp only: split_paired_all prod.case)
  apply (elim bind_err_InrE)
  apply clarsimp
  done

lemma readmovie_rule:
  assumes "readmovie_parse P file filepath = Inr (vol, lab)"
  shows "\<exists>hdr0 pos raw. wsxm_readheader P file 0 = Inr (hdr0, pos)
           \<and> vol_header vol = dict_set hdr0 ''File path'' (HPath filepath)
           \<and> raw_frames P file (vol_header vol) pos = Inr raw
           \<and> amplitude_rule P (vol_header vol) raw (flat (vol_ZZ vol)) (vol_unit_ZZ vol)"
proof -
  from assms obtain hdr0 pos hdr data_format chan_label x_num y_num chan_num z_len z_min z_max
      point_length type_code ch_array z_calib z_unit zz where
      h: "wsxm_readheader P file 0 = Inr (hdr0, pos)"
         "hdr = dict_set hdr0 ''File path'' (HPath filepath)" and
      f: "hdr_str hdr ''Image Data Type [General Info]'' = Inr data_format"
      "hdr_str hdr ''Acquisition channel [General Info]'' = Inr chan_label"
      "hdr_int P hdr ''Number of rows [General Info]'' = Inr x_num"
      "hdr_int P hdr ''Number of columns [General Info]'' = Inr y_num"
      "hdr_int P hdr ''Number of Frames [General Info]'' = Inr chan_num"
      "hdr_float0 P hdr ''Z Amplitude [General Info]'' = Inr z_len"
      "hdr_float P hdr ''Minimum [Miscellaneous]'' = Inr z_min"
      "hdr_float P hdr ''Maximum [Miscellaneous]'' = Inr z_max"
      "data_type data_format = Inr (point_length, type_code)"
      "read_frames P file pos (x_num * y_num * point_length) type_code (\<lambda>v. z_calib * v)
         (nat chan_num) = Inr ch_array"
      "z_calibration P hdr chan_label z_len z_min z_max = Inr (z_calib, z_unit)"
      "reshape_int ch_array [chan_num, y_num, x_num] = Inr zz"
      "vol_ZZ vol = zz" "vol_unit_ZZ vol = z_unit" "vol_header vol = hdr"
    by (rule readmovie_facts)
  from f(6) obtain zamp where z: "hdr_str hdr ''Z Amplitude [General Info]'' = Inr zamp"
     "py_float P (hd (split_on CHR '' '' zamp)) = Inr z_len"
    by (auto simp add: hdr_float0_def bind_err_eq_Inr)
  from read_frames_map[OF f(10)] obtain raw where
     r: "read_frames P file pos (x_num * y_num * point_length) type_code (\<lambda>v. v) (nat chan_num)
           = Inr raw"
     "ch_array = map (\<lambda>v. z_calib * v) raw" by blast
  have raw: "raw_frames P file hdr pos = Inr raw"
    using f(1) f(3) f(4) f(5) f(9) r(1) by (simp add: raw_frames_def)
  have fl: "flat (vol_ZZ vol) = map (\<lambda>v. z_calib * v) raw"
    using f(12,13) r(2) by (simp add: reshape_int_flat)
  have "amplitude_rule P hdr raw (flat (vol_ZZ vol)) (vol_unit_ZZ vol)"
    by (rule amplitude_ruleI[OF f(2) z(1) z(2) f(7) f(8) f(11) fl f(14)])
  with h raw f(15) show ?thesis by auto
qed

lemma bind_err_weak_cong: "m = m' \<Longrightarrow> bind_err m f = bind_err m' f"
  by simp

lemmas wsxm_eval = wsxm_readheader_def splitlines_def header_size_line_def header_line_def
  wsxm_readimg_def readmovie_parse_def hdr_str_def hdr_int_def hdr_float_def hdr_float0_def
  hdr_last_def py_int_def py_float_def dec_prims_def dec_int_def dec_float_def dec_unsigned_def
  parse_nat_def strip_def is_space_def is_digit_def scan_offsets_def np_linspace_def
  data_type_def DATA_TYPES_def read_array_def file_read_def le_unpack_def to_signed_def
  z_calibration_def py_div_def reshape2_def reshape_int_def np_reshape_def np_size_def
  vector_def scale_array_def py_index_def crlf_lines_def

lemma topo_flat_header_read:
  "wsxm_readheader dec_prims topo_flat_file 0 = Inr (topo_flat_hdr, 377)"
  by (simp add: wsxm_eval topo_flat_hdr_def topo_flat_file_def topo_flat_header_def
      cong: bind_err_weak_cong)

lemma amp_header_read: "wsxm_readheader dec_prims amp_file 0 = Inr (amp_header, 432)"
  by (simp add: wsxm_eval amp_header_def amp_file_def amp_header_text_def
      cong: bind_err_weak_cong)

text \<open>
  C10, as stated, fails for a channel whose declared Z amplitude is 0: the code then uses
  the factor 1, not \<open>z_len / (z_max - z_min)\<close>. For the Topography image with Z amplitude
  0 nm and raw values 3 and 4 the data are 3 and 4 (factor 1), while
  \<open>z_len / (z_max - z_min) = 0 / (1 - 0)\<close> would give 0 and 0.
\<close>

theorem wsxm_calibration_counterexample:
  "map_sum id (\<lambda>r. (flat (img_Z (fst r)), img_unit_Z (fst r)))
     (wsxm_readimg dec_prims topo_flat_file topo_flat_hdr 377) = Inr ([3, 4], ''nm'')
   \<and> raw_image dec_prims topo_flat_file topo_flat_hdr 377 = Inr [3, 4]
   \<and> map (\<lambda>v. (0 / (1 - 0)) * v) [3, 4 :: real] \<noteq> [3, 4]"
  by (simp add: wsxm_eval raw_image_def topo_flat_hdr_def topo_flat_file_def
      topo_flat_header_def cong: bind_err_weak_cong)

text \<open>
  C10, amended: when \<open>_wsxm_readimg\<close> or \<open>_wsxm_readmovie\<close> return, the data are the raw
  numbers times a factor and the Z unit is as follows. With \<open>base\<close> equal to 1 when the
  declared Z amplitude is 0 and to \<open>z_len / (z_max - z_min)\<close> otherwise: for a channel
  labeled \<open>Amplitude\<close> whose Z Amplitude field has a second word other than \<open>V\<close> the factor is
  \<open>base\<close> divided by the conversion factor (Conversion Factor 00) and the unit is \<open>V\<close>; for
  every other channel the factor is \<open>base\<close> and the unit is the last word of the Z Amplitude
  field.
\<close>

theorem wsxm_amplitude_correction:
  "(wsxm_readimg P file hdr pos = Inr (img, pos') \<longrightarrow>
      (\<exists>raw. raw_image P file hdr pos = Inr raw
            \<and> amplitude_rule P hdr raw (flat (img_Z img)) (img_unit_Z img)))
   \<and> (readmovie_parse P file filepath = Inr (vol, lab) \<longrightarrow>
      (\<exists>hdr0 pos0 raw. wsxm_readheader P file 0 = Inr (hdr0, pos0)
            \<and> vol_header vol = dict_set hdr0 ''File path'' (HPath filepath)
            \<and> raw_frames P file (vol_header vol) pos0 = Inr raw
            \<and> amplitude_rule P (vol_header vol) raw (flat (vol_ZZ vol)) (vol_unit_ZZ vol)))"
  using readimg_rule readmovie_rule by blast

theorem wsxm_amplitude_correction_witness:
  "(\<exists>img pos'. wsxm_readimg dec_prims amp_file amp_header 432 = Inr (img, pos')
       \<and> flat (img_Z img) = [1, 2] \<and> img_unit_Z img = ''V''
       \<and> (\<exists>raw. raw_image dec_prims amp_file amp_header 432 = Inr raw
              \<and> amplitude_rule dec_prims amp_header raw (flat (img_Z img)) (img_unit_Z img)))
   \<and> (\<exists>vol lab. readmovie_parse dec_prims amp_file \<lparr>p_parent = ''data'', p_name = ''amp.MOV''\<rparr>
                     = Inr (vol, lab)
       \<and> flat (vol_ZZ vol) = [1, 2] \<and> vol_unit_ZZ vol = ''V''
       \<and> (\<exists>hdr0 pos0 raw. wsxm_readheader dec_prims amp_file 0 = Inr (hdr0, pos0)
              \<and> raw_frames dec_prims amp_file (vol_header vol) pos0 = Inr raw
              \<and> amplitude_rule dec_prims (vol_header vol) raw (flat (vol_ZZ vol)) (vol_unit_ZZ vol)))"
proof -
  have "\<exists>img pos'. wsxm_readimg dec_prims amp_file amp_header 432 = Inr (img, pos')
          \<and> flat (img_Z img) = [1, 2] \<and> img_unit_Z img = ''V''"
    by (simp add: wsxm_eval amp_header_def amp_file_def amp_header_text_def
        cong: bind_err_weak_cong)
  then obtain img pos' where i: "wsxm_readimg dec_prims amp_file amp_header 432 = Inr (img, pos')"
    "flat (img_Z img) = [1, 2]" "img_unit_Z img = ''V''" by blast
  have "\<exists>vol lab. readmovie_parse dec_prims amp_file \<lparr>p_parent = ''data'', p_name = ''amp.MOV''\<rparr>
                     = Inr (vol, lab)
          \<and> flat (vol_ZZ vol) = [1, 2] \<and> vol_unit_ZZ vol = ''V''"
    by (simp add: readmovie_parse_def amp_header_read Let_def)
       (simp add: wsxm_eval amp_header_def amp_file_def amp_header_text_def
        cong: bind_err_weak_cong)
  then obtain vol lab where
    m: "readmovie_parse dec_prims amp_file \<lparr>p_parent = ''data'', p_name = ''amp.MOV''\<rparr> = Inr (vol, lab)"
    "flat (vol_ZZ vol) = [1, 2]" "vol_unit_ZZ vol = ''V''" by blast
  note t = wsxm_amplitude_correction [of dec_prims amp_file amp_header 432 img pos'
      "\<lparr>p_parent = ''data'', p_name = ''amp.MOV''\<rparr>" vol lab]
  from t i(1) have r1: "\<exists>raw. raw_image dec_prims amp_file amp_header 432 = Inr raw
      \<and> amplitude_rule dec_prims amp_header raw (flat (img_Z img)) (img_unit_Z img)"
    by blast
  from t m(1) have r2: "\<exists>hdr0 pos0 raw. wsxm_readheader dec_prims amp_file 0 = Inr (hdr0, pos0)
      \<and> raw_frames dec_prims amp_file (vol_header vol) pos0 = Inr raw
      \<and> amplitude_rule dec_prims (vol_header vol) raw (flat (vol_ZZ vol)) (vol_unit_ZZ vol)"
    by blast
  from i m r1 r2 show ?thesis by blast
qed


subsection \<open>WSxM: the default dictionary of \<open>_wsxm_readstp\<close>\<close>

lemma stp_header_length: "length stp_header = 380"
  by (simp add: stp_header_def crlf_lines_def)

lemma stp_header_read: "wsxm_readheader dec_prims (stp_header @ tail) 0 = Inr (stp_hdr, 380)"
  by (simp add: wsxm_eval stp_hdr_def stp_header_def cong: bind_err_weak_cong)

lemma upt_2: "[0..<2] = [0, 1]"
  by (simp add: upt_rec)

lemmas stp_parse_eval = stp_parse_def stp_label_dir_def py_index_end_def spect_dir_def
  SPECT_DICT_def extreme_calib_def scan_file_def Let_def upt_2

lemma stp_parse_f:
  "stp_parse dec_prims stp_approach_file (scan_file ''run_0003_Normal force.f.stp'')
     (dict_set stp_hdr ''File path'' (HPathList a)) 380 = Inr (stp_info_of ''approach'' a [3, 4])"
  by (simp add: stp_parse_eval wsxm_eval stp_hdr_def stp_info_of_def stp_approach_file_def
      stp_header_length cong: bind_err_weak_cong)

lemma stp_parse_b:
  "stp_parse dec_prims stp_retract_file (scan_file ''run_0003_Normal force.b.stp'')
     (dict_set stp_hdr ''File path'' (HPathList a)) 380 = Inr (stp_info_of ''retract'' a [5, 6])"
  by (simp add: stp_parse_eval wsxm_eval stp_hdr_def stp_info_of_def stp_retract_file_def
      stp_header_length cong: bind_err_weak_cong)

lemma scans_bytes:
  "fs_bytes scans (scan_file ''run_0003_Normal force.f.stp'') = Some stp_approach_file"
  "fs_bytes scans (scan_file ''run_0003_Normal force.b.stp'') = Some stp_retract_file"
  "fs_bytes scans (scan_file ''img_0001.top'') = Some pixel_file"
  "fs_bytes scans (scan_file ''mov_0002.mpp'') = Some amp_file"
  "fs_bytes scans (scan_file ''bad_0005.top'') = Some short_header_file"
  by (simp_all add: scans_def scan_file_def)

lemma upt_1: "[0..<Suc 0] = [0]"
  by simp

lemma char_of_49: "char_of (49 :: nat) = CHR ''1''"
  by code_simp

lemmas stp_state_eval = wsxm_readstp_default_def wsxm_readstp_def py_open_def py_close_def
  scans_bytes stp_approach_file_def stp_retract_file_def stp_header_read
  alloc_paths_def alloc_curves_def alloc_data_def stp_row_def stp_ensure_chan_def
  stp_ensure_curve_def stp_ensure_dir_def key_text_def str_int_def Let_def

lemma stp_f_fresh:
  "wsxm_readstp_default scans dec_prims (scan_file ''run_0003_Normal force.f.stp'') initial_state
     = (Inr ''Normal force'',
        \<lparr>open_files = [],
         chan_dicts = [[(''Normal force'', \<lparr>ch_curves = 0, ch_image = None\<rparr>)]],
         curve_dicts = [[(CInt 1,
            \<lparr>ce_header = stp_hdr @ [(''File path'', HPathList 0),
                                    (''Spectroscopy channel'', HStr ''Normal force''),
                                    (''Index of this Curve [Control]'', HStr ''1''),
                                    (''Number of Curves in this serie [Control]'', HStr ''1'')],
             ce_data = 0, ce_unit_x = ''nm'', ce_unit_y = ''nm''\<rparr>)]],
         data_dicts = [[(''approach'', \<lparr>xy_x = Some [0, 10], xy_y = Some [3, 4]\<rparr>)]],
         path_lists = [[scan_file ''run_0003_Normal force.f.stp'']]\<rparr>)"
  apply (simp add: stp_state_eval initial_state_def)
  apply (simp add: stp_approach_file_def[symmetric] stp_parse_f)
  apply (simp add: stp_info_of_def stp_row_def stp_ensure_chan_def stp_ensure_curve_def
      stp_ensure_dir_def alloc_curves_def alloc_data_def key_text_def str_int_def Let_def
      stp_hdr_def dec.simps char_of_49 py_close_def)
  done

lemmas stp_row_eval = stp_info_of_def stp_row_def stp_ensure_chan_def stp_ensure_curve_def
  stp_ensure_dir_def alloc_curves_def alloc_data_def key_text_def str_int_def Let_def
  stp_hdr_def dec.simps char_of_49 py_close_def

lemma stp_b_fresh:
  "wsxm_readstp_default scans dec_prims (scan_file ''run_0003_Normal force.b.stp'') initial_state
     = (Inr ''Normal force'',
        \<lparr>open_files = [],
         chan_dicts = [[(''Normal force'', \<lparr>ch_curves = 0, ch_image = None\<rparr>)]],
         curve_dicts = [[(CInt 1,
            \<lparr>ce_header = stp_hdr @ [(''File path'', HPathList 0),
                                    (''Spectroscopy channel'', HStr ''Normal force''),
                                    (''Index of this Curve [Control]'', HStr ''1''),
                                    (''Number of Curves in this serie [Control]'', HStr ''1'')],
             ce_data = 0, ce_unit_x = ''nm'', ce_unit_y = ''nm''\<rparr>)]],
         data_dicts = [[(''retract'', \<lparr>xy_x = Some [0, 10], xy_y = Some [5, 6]\<rparr>)]],
         path_lists = [[scan_file ''run_0003_Normal force.b.stp'']]\<rparr>)"
  apply (simp add: stp_state_eval initial_state_def)
  apply (simp add: stp_retract_file_def[symmetric] stp_parse_b)
  apply (simp add: stp_row_eval)
  done

lemma stp_b_after_f:
  "wsxm_readstp_default scans dec_prims (scan_file ''run_0003_Normal force.b.stp'')
     (snd (wsxm_readstp_default scans dec_prims (scan_file ''run_0003_Normal force.f.stp'')
             initial_state))
     = (Inr ''Normal force'',
        \<lparr>open_files = [],
         chan_dicts = [[(''Normal force'', \<lparr>ch_curves = 0, ch_image = None\<rparr>)]],
         curve_dicts = [[(CInt 1,
            \<lparr>ce_header = stp_hdr @ [(''File path'', HPathList 0),
                                    (''Spectroscopy channel'', HStr ''Normal force''),
                                    (''Index of this Curve [Control]'', HStr ''1''),
                                    (''Number of Curves in this serie [Control]'', HStr ''1'')],
             ce_data = 0, ce_unit_x = ''nm'', ce_unit_y = ''nm''\<rparr>)]],
         data_dicts = [[(''approach'', \<lparr>xy_x = Some [0, 10], xy_y = Some [3, 4]\<rparr>),
                        (''retract'', \<lparr>xy_x = Some [0, 10], xy_y = Some [5, 6]\<rparr>)]],
         path_lists = [[scan_file ''run_0003_Normal force.f.stp'',
                        scan_file ''run_0003_Normal force.b.stp''],
                       [scan_file ''run_0003_Normal force.b.stp'']]\<rparr>)"
  apply (simp add: stp_f_fresh)
  apply (simp add: stp_state_eval)
  apply (simp add: stp_retract_file_def[symmetric] stp_parse_b)
  apply (simp add: stp_row_eval scan_file_def)
  done

text \<open>
  C8: the default value of \<open>data_dict\<close> is one dictionary for all calls. Called without
  \<open>data_dict\<close> on the retract file alone, \<open>_wsxm_readstp\<close> returns a dictionary whose curve 1
  has the retract direction only; called with the same argument after a call on the
  approach file, it returns a dictionary whose curve 1 also holds the approach data of the
  earlier file. The two calls have identical arguments and read identical bytes.
\<close>

theorem readstp_default_dict_is_shared:
  "(let f = scan_file ''run_0003_Normal force.f.stp'';
        b = scan_file ''run_0003_Normal force.b.stp'';
        alone = wsxm_readstp_default scans dec_prims b initial_state;
        first = wsxm_readstp_default scans dec_prims f initial_state;
        second = wsxm_readstp_default scans dec_prims b (snd first)
    in fst alone = Inr ''Normal force''
       \<and> dict_contents (snd alone) 0
           = [(''Normal force'',
               [(CInt 1, [(''retract'', \<lparr>xy_x = Some [0, 10], xy_y = Some [5, 6]\<rparr>)])])]
       \<and> fst first = Inr ''Normal force''
       \<and> fst second = Inr ''Normal force''
       \<and> dict_contents (snd second) 0
           = [(''Normal force'',
               [(CInt 1, [(''approach'', \<lparr>xy_x = Some [0, 10], xy_y = Some [3, 4]\<rparr>),
                          (''retract'', \<lparr>xy_x = Some [0, 10], xy_y = Some [5, 6]\<rparr>)])])])"
  apply (simp only: Let_def stp_b_after_f)
  apply (simp add: stp_b_fresh stp_f_fresh dict_contents_def)
  done


subsection \<open>The shape invariant of the emitted records\<close>


lemma axes_match_cong:
  "ds_axes d' = ds_axes d \<Longrightarrow> ds_array d' = ds_array d \<Longrightarrow> axes_match d' = axes_match d"
  by (simp add: axes_match_def)



























lemma shape_np_build [simp]: "shape (np_build s f) = s"
  by (simp add: np_build_def)







lemma scan_file_name [simp]: "p_name (scan_file nm) = nm"
  by (simp add: scan_file_def)





end
